theory Spec2Isabelle
  imports Complex_Main "HOL-Library.Word"
begin

unbundle bit_operations_syntax

section \<open>Floating-point values\<close>

text \<open>
  A \<open>float\<close> or \<open>double\<close> is NaN, an infinity, or a finite number. The two zeros
  of IEEE 754 are one value here: they compare equal, and the places where the source
  divides are noted below. A finite value that a computation yields is representable,
  since every operation rounds; the model does not ask it of the values it is given.
\<close>

datatype fval = NaN | NInf | Fin real | PInf

text \<open>The comparison \<open>a < b\<close>: false as soon as one side is NaN.\<close>

fun flt :: "fval \<Rightarrow> fval \<Rightarrow> bool" where
  "flt (Fin a) (Fin b) \<longleftrightarrow> a < b"
| "flt NInf (Fin b) \<longleftrightarrow> True"
| "flt NInf PInf \<longleftrightarrow> True"
| "flt (Fin a) PInf \<longleftrightarrow> True"
| "flt a b \<longleftrightarrow> False"

text \<open>The comparison \<open>a <= b\<close>.\<close>

definition fle :: "fval \<Rightarrow> fval \<Rightarrow> bool" where
  "fle a b \<longleftrightarrow> flt a b \<or> (a = b \<and> a \<noteq> NaN)"

text \<open>
  Rounding to nearest, ties to even, in a binary format with \<open>p\<close> bits of precision
  and exponents from \<open>emin\<close> to \<open>emax\<close>: the unit in the last place of \<open>x\<close> is
  \<open>2^(e - p + 1)\<close> for the exponent \<open>e\<close> of \<open>x\<close>, which is not below \<open>emin\<close> (below
  it the values are subnormal), and a result of magnitude \<open>2^(emax + 1)\<close> or more is an
  infinity.
\<close>

definition round_half_even :: "real \<Rightarrow> int" where
  "round_half_even m =
     (let f = \<lfloor>m\<rfloor>; d = m - of_int f
      in if d < 1 / 2 then f else if 1 / 2 < d then f + 1 else if even f then f else f + 1)"

definition fround :: "nat \<Rightarrow> int \<Rightarrow> int \<Rightarrow> real \<Rightarrow> fval" where
  "fround p emin emax x =
     (if x = 0 then Fin 0
      else
        (let e = max \<lfloor>log 2 \<bar>x\<bar>\<rfloor> emin;
             u = 2 powi (e - int p + 1);
             r = of_int (round_half_even (x / u)) * u
         in if 2 powi (emax + 1) \<le> \<bar>r\<bar> then (if x < 0 then NInf else PInf) else Fin r))"

text \<open>\<open>float\<close> is binary32 and \<open>double\<close> is binary64.\<close>

definition f32_round :: "real \<Rightarrow> fval" where
  "f32_round = fround 24 (- 126) 127"


text \<open>
  The arithmetic operations, for a format given by its rounding \<open>rnd\<close>. Each is the
  exact result rounded once; the source's expressions are modelled operation by
  operation, as written.
\<close>

fun fl_neg :: "fval \<Rightarrow> fval" where
  "fl_neg NaN = NaN"
| "fl_neg NInf = PInf"
| "fl_neg PInf = NInf"
| "fl_neg (Fin a) = Fin (- a)"

fun fl_add :: "(real \<Rightarrow> fval) \<Rightarrow> fval \<Rightarrow> fval \<Rightarrow> fval" where
  "fl_add rnd NaN b = NaN"
| "fl_add rnd a NaN = NaN"
| "fl_add rnd (Fin a) (Fin b) = rnd (a + b)"
| "fl_add rnd PInf NInf = NaN"
| "fl_add rnd NInf PInf = NaN"
| "fl_add rnd PInf b = PInf"
| "fl_add rnd NInf b = NInf"
| "fl_add rnd a b = b"

definition fl_sub :: "(real \<Rightarrow> fval) \<Rightarrow> fval \<Rightarrow> fval \<Rightarrow> fval" where
  "fl_sub rnd a b = fl_add rnd a (fl_neg b)"


fun fl_is_neg :: "fval \<Rightarrow> bool" where
  "fl_is_neg NInf \<longleftrightarrow> True"
| "fl_is_neg (Fin a) \<longleftrightarrow> a < 0"
| "fl_is_neg a \<longleftrightarrow> False"

fun fl_mul :: "(real \<Rightarrow> fval) \<Rightarrow> fval \<Rightarrow> fval \<Rightarrow> fval" where
  "fl_mul rnd NaN b = NaN"
| "fl_mul rnd a NaN = NaN"
| "fl_mul rnd (Fin a) (Fin b) = rnd (a * b)"
| "fl_mul rnd a b =
     (if a = Fin 0 \<or> b = Fin 0 then NaN
      else if fl_is_neg a = fl_is_neg b then PInf else NInf)"



definition f32_add :: "fval \<Rightarrow> fval \<Rightarrow> fval" where
  "f32_add = fl_add f32_round"

definition f32_sub :: "fval \<Rightarrow> fval \<Rightarrow> fval" where
  "f32_sub = fl_sub f32_round"

definition f32_mul :: "fval \<Rightarrow> fval \<Rightarrow> fval" where
  "f32_mul = fl_mul f32_round"





text \<open>\<open>std::numeric_limits<float>::max()\<close>, that is \<open>(2 - 2^-23) * 2^127\<close>.\<close>

definition flt_max :: fval where
  "flt_max = Fin 340282346638528859811704183484516925440"

section \<open>Failures\<close>

text \<open>
  A failed \<open>CHECK\<close>, a thrown exception and undefined behaviour (an access outside a
  vector, a null or unset pointer, Eigen operands of different sizes) are values.
\<close>

datatype error =
  CheckFailed string | RuntimeError string | LengthError string | UndefinedBehaviour

section \<open>Data model (saqlib/defines.hpp)\<close>

text \<open>\<open>PID\<close> is \<open>uint32_t\<close>. A \<open>Candidate\<close> is the pair of an id and a \<open>float\<close>.\<close>

type_synonym PID = "32 word"

record Candidate =
  id_c :: PID
  distance :: fval

text \<open>The value-initialised \<open>Candidate()\<close> that \<open>std::vector(n)\<close> fills its storage with.\<close>

definition zero_candidate :: Candidate where
  "zero_candidate = \<lparr>id_c = 0, distance = Fin 0\<rparr>"

section \<open>SearchBuffer (saqlib/utils/buffer.hpp)\<close>

text \<open>
  The fields \<open>data_\<close>, \<open>size_\<close>, \<open>cur_\<close>, \<open>capacity_\<close> of the class. The \<open>size_t\<close>
  fields hold natural numbers below \<open>2^64\<close>. The constructor and \<open>resize\<close> take their
  \<open>size_t\<close> argument as a 64-bit word and add 1 to it in 64 bits. The other sums are
  sums of indices into the vector and of counts of its elements. Where the source
  subtracts (\<open>size_ - 1\<close>, \<open>size_ - lo\<close>) the case in which the unsigned subtraction
  would wrap is written out.
\<close>

record SearchBuffer =
  data_sb :: "Candidate list"
  size_sb :: nat
  cur_sb :: nat
  capacity_sb :: nat

text \<open>
  \<open>data_[i]\<close>: indexing a \<open>std::vector\<close> outside its bounds is undefined behaviour.
  \<open>insert\<close>, \<open>pop\<close> and \<open>copy_results\<close> return \<open>None\<close> as soon as the source would
  do that.
\<close>

definition elem_at :: "'a list \<Rightarrow> nat \<Rightarrow> 'a option" where
  "elem_at xs i = (if i < length xs then Some (xs ! i) else None)"

text \<open>The loop of \<open>binary_search\<close>, on the local variables \<open>lo\<close> and \<open>len\<close>.\<close>

function bs_loop :: "Candidate list \<Rightarrow> fval \<Rightarrow> nat \<Rightarrow> nat \<Rightarrow> nat option" where
  "bs_loop d dis lo len =
     (if 1 < len then
        (let half = len div 2 in
         case elem_at d (lo + half - 1) of
           None \<Rightarrow> None
         | Some c \<Rightarrow>
             bs_loop d dis (lo + (if flt (distance c) dis then 1 else 0) * half) (len - half))
      else Some lo)"
  by pat_completeness auto
termination
  by (relation "measure (\<lambda>(d, dis, lo, len). len)") auto

definition binary_search :: "SearchBuffer \<Rightarrow> fval \<Rightarrow> nat option" where
  "binary_search sb dis =
     (case bs_loop (data_sb sb) dis 0 (size_sb sb) of
        None \<Rightarrow> None
      | Some lo \<Rightarrow>
          if lo < size_sb sb then
            (case elem_at (data_sb sb) lo of
               None \<Rightarrow> None
             | Some c \<Rightarrow> Some (if flt (distance c) dis then lo + 1 else lo))
          else Some lo)"

text \<open>\<open>data_id |= (1 << 31)\<close> and \<open>static_cast<bool>(data_id >> 31)\<close>.\<close>

definition set_checked :: "PID \<Rightarrow> PID" where
  "set_checked data_id = data_id OR push_bit 31 1"

definition is_checked :: "PID \<Rightarrow> bool" where
  "is_checked data_id \<longleftrightarrow> drop_bit 31 data_id \<noteq> 0"

text \<open>
  The construction \<open>std::vector<Candidate, AlignedAllocator<Candidate>>(n)\<close>. What it
  does for a count \<open>n\<close> depends on the library and on the memory at hand, and is the
  parameter \<open>vec\<close>: the vector of \<open>n\<close> value-initialised candidates; or
  \<open>std::length_error\<close>, thrown when \<open>n\<close> exceeds \<open>max_size()\<close>; or a null pointer from
  \<open>std::aligned_alloc\<close>, which \<open>AlignedAllocator::allocate\<close> hands on and the vector
  then writes through.
\<close>

datatype vec_outcome = VecOk | VecLengthError | VecNull

definition new_vector :: "(nat \<Rightarrow> vec_outcome) \<Rightarrow> nat \<Rightarrow> error + Candidate list" where
  "new_vector vec n =
     (case vec n of
        VecOk \<Rightarrow> Inr (replicate n zero_candidate)
      | VecLengthError \<Rightarrow>
          Inl (LengthError ''cannot create std::vector larger than max_size()'')
      | VecNull \<Rightarrow> Inl UndefinedBehaviour)"

text \<open>
  \<open>explicit SearchBuffer(size_t capacity)\<close>: \<open>data_(capacity + 1)\<close>, where the sum is
  a \<open>size_t\<close> and is 0 for \<open>SIZE_MAX\<close>, and \<open>capacity_(capacity)\<close>.
\<close>

definition SearchBuffer_new :: "(nat \<Rightarrow> vec_outcome) \<Rightarrow> 64 word \<Rightarrow> error + SearchBuffer" where
  "SearchBuffer_new vec capacity =
     (case new_vector vec (unat (capacity + 1)) of
        Inl err \<Rightarrow> Inl err
      | Inr d \<Rightarrow> Inr \<lparr>data_sb = d, size_sb = 0, cur_sb = 0, capacity_sb = unat capacity\<rparr>)"

definition is_full :: "SearchBuffer \<Rightarrow> bool" where
  "is_full sb \<longleftrightarrow> size_sb sb = capacity_sb sb"

text \<open>
  \<open>top_dist\<close> reads \<open>data_[size_ - 1]\<close> when the buffer is full. With \<open>size_ = 0\<close>
  the index wraps to \<open>SIZE_MAX\<close>, which is out of bounds.
\<close>

definition top_dist :: "SearchBuffer \<Rightarrow> fval option" where
  "top_dist sb =
     (if is_full sb then
        (if size_sb sb = 0 then None
         else map_option distance (elem_at (data_sb sb) (size_sb sb - 1)))
      else Some flt_max)"

text \<open>The overload \<open>is_full(float dist)\<close>: \<open>dist > top_dist()\<close>.\<close>

definition is_full_dist :: "SearchBuffer \<Rightarrow> fval \<Rightarrow> bool option" where
  "is_full_dist sb dis = map_option (\<lambda>t. flt t dis) (top_dist sb)"

text \<open>
  \<open>std::memmove(&data_[lo + 1], &data_[lo], n * sizeof(Candidate))\<close>: both
  references must be elements of the vector and the \<open>n\<close> candidates moved must stay
  inside it.
\<close>

definition memmove_right :: "Candidate list \<Rightarrow> nat \<Rightarrow> nat \<Rightarrow> Candidate list option" where
  "memmove_right d lo n =
     (if lo + 1 < length d \<and> lo + 1 + n \<le> length d
      then Some (take (lo + 1) d @ take n (drop lo d) @ drop (lo + 1 + n) d)
      else None)"

definition insert_sb :: "PID \<Rightarrow> fval \<Rightarrow> SearchBuffer \<Rightarrow> SearchBuffer option" where
  "insert_sb data_id dis sb =
     (case is_full_dist sb dis of
        None \<Rightarrow> None
      | Some True \<Rightarrow> Some sb
      | Some False \<Rightarrow>
          (case binary_search sb dis of
             None \<Rightarrow> None
           | Some lo \<Rightarrow>
               if size_sb sb < lo then None
               else
                 (case memmove_right (data_sb sb) lo (size_sb sb - lo) of
                    None \<Rightarrow> None
                  | Some d' \<Rightarrow>
                      Some (sb\<lparr>data_sb := d'[lo := \<lparr>id_c = data_id, distance = dis\<rparr>],
                               size_sb := size_sb sb
                                  + (if size_sb sb < capacity_sb sb then 1 else 0),
                               cur_sb := (if lo < cur_sb sb then lo else cur_sb sb)\<rparr>))))"

text \<open>The \<open>while\<close> loop of \<open>pop\<close>, on the field \<open>cur_\<close>.\<close>

function pop_loop :: "Candidate list \<Rightarrow> nat \<Rightarrow> nat \<Rightarrow> nat option" where
  "pop_loop d sz cur =
     (if cur < sz then
        (case elem_at d cur of
           None \<Rightarrow> None
         | Some c \<Rightarrow> if is_checked (id_c c) then pop_loop d sz (cur + 1) else Some cur)
      else Some cur)"
  by pat_completeness auto
termination
  by (relation "measure (\<lambda>(d, sz, cur). sz - cur)") auto

definition pop :: "SearchBuffer \<Rightarrow> (PID \<times> SearchBuffer) option" where
  "pop sb =
     (case elem_at (data_sb sb) (cur_sb sb) of
        None \<Rightarrow> None
      | Some c \<Rightarrow>
          (let cur_id = id_c c;
               d' = (data_sb sb)[cur_sb sb := c\<lparr>id_c := set_checked (id_c c)\<rparr>]
           in case pop_loop d' (size_sb sb) (cur_sb sb + 1) of
                None \<Rightarrow> None
              | Some cur' \<Rightarrow> Some (cur_id, sb\<lparr>data_sb := d', cur_sb := cur'\<rparr>)))"

definition clear :: "SearchBuffer \<Rightarrow> SearchBuffer" where
  "clear sb = sb\<lparr>size_sb := 0, cur_sb := 0\<rparr>"


definition has_next :: "SearchBuffer \<Rightarrow> bool" where
  "has_next sb \<longleftrightarrow> cur_sb sb < size_sb sb"

text \<open>
  \<open>resize(new_size)\<close> assigns \<open>capacity_\<close> first and then builds the vector of
  \<open>capacity_ + 1\<close> candidates, a sum in \<open>size_t\<close>, and moves it into \<open>data_\<close>. The
  result is the pair of what the caller receives and the buffer afterwards: when the
  vector cannot be built, \<open>capacity_\<close> is already changed and \<open>data_\<close> is not.
\<close>

definition resize ::
  "(nat \<Rightarrow> vec_outcome) \<Rightarrow> 64 word \<Rightarrow> SearchBuffer \<Rightarrow> (error + unit) \<times> SearchBuffer" where
  "resize vec new_size sb =
     (let sb1 = sb\<lparr>capacity_sb := unat new_size\<rparr> in
      case new_vector vec (unat (new_size + 1)) of
        Inl err \<Rightarrow> (Inl err, sb1)
      | Inr d \<Rightarrow> (Inr (), sb1\<lparr>data_sb := d\<rparr>))"




text \<open>
  The facts about a buffer that every such operation keeps, whatever the distances:
  \<open>size_ \<le> capacity_\<close>, \<open>cur_ \<le> size_\<close>, every entry before the cursor is checked,
  and the vector has \<open>capacity_ + 1\<close> slots, or none at all after a construction with
  \<open>SIZE_MAX\<close>, and then the buffer is empty.
\<close>

definition sb_inv :: "SearchBuffer \<Rightarrow> bool" where
  "sb_inv sb \<longleftrightarrow>
     size_sb sb \<le> capacity_sb sb \<and> cur_sb sb \<le> size_sb sb \<and>
     list_all (\<lambda>c. is_checked (id_c c)) (take (cur_sb sb) (data_sb sb)) \<and>
     (length (data_sb sb) = capacity_sb sb + 1 \<or> (data_sb sb = [] \<and> size_sb sb = 0))"




text \<open>For the examples: every vector can be built.\<close>

definition always_ok :: "nat \<Rightarrow> vec_outcome" where
  "always_ok n = VecOk"

text \<open>Further inputs of the examples: vectors that cannot be built.\<close>

definition never_ok :: "nat \<Rightarrow> vec_outcome" where
  "never_ok n = VecLengthError"

definition null_alloc :: "nat \<Rightarrow> vec_outcome" where
  "null_alloc n = VecNull"

text \<open>
  The buffers of the examples. \<open>fresh_buffer C\<close> is what the constructor builds for
  a capacity \<open>C\<close> below \<open>SIZE_MAX\<close>. \<open>two_buffer\<close> is the buffer of capacity 2 after
  \<open>insert(1, 1.0)\<close>, \<open>insert(2, 2.0)\<close>, \<open>two_buffer_popped\<close> the same after \<open>pop()\<close>,
  and \<open>resized_buffer\<close> is \<open>two_buffer\<close> after \<open>resize(0)\<close>. \<open>one_buffer_popped\<close> is
  the buffer of capacity 1 after \<open>insert(1, 1.0)\<close>, \<open>pop()\<close>. \<open>scenario_buffer\<close> is
  the buffer of capacity 4 after \<open>insert\<close> of \<open>(1, 1.0)\<close>, \<open>(2, 2.0)\<close>, \<open>(3, 3.0)\<close> and
  \<open>pop()\<close>. \<open>nan_buffer\<close> is the buffer of capacity 4 after \<open>insert\<close> of \<open>(1, 1.0)\<close>,
  \<open>(2, NaN)\<close>, \<open>(3, 0.5)\<close>, \<open>(4, 2.0)\<close>, and \<open>nan_buffer_popped\<close> the same after
  \<open>pop()\<close>. \<open>nan_buffer_7\<close> is the buffer of capacity 8 after \<open>insert\<close> of
  \<open>(1, NaN)\<close>, \<open>(2, NaN)\<close>, \<open>(3, NaN)\<close>, \<open>(4, NaN)\<close>, \<open>(5, 0.25)\<close>, \<open>(6, NaN)\<close>,
  \<open>(7, 0.75)\<close>, and \<open>nan_buffer_8\<close> the same after \<open>insert(99, 0.5)\<close>.
\<close>

definition fresh_buffer :: "nat \<Rightarrow> SearchBuffer" where
  "fresh_buffer C =
     \<lparr>data_sb = replicate (C + 1) zero_candidate, size_sb = 0, cur_sb = 0, capacity_sb = C\<rparr>"

definition two_buffer :: SearchBuffer where
  "two_buffer =
     \<lparr>data_sb = [\<lparr>id_c = 1, distance = Fin 1\<rparr>, \<lparr>id_c = 2, distance = Fin 2\<rparr>,
                 zero_candidate],
      size_sb = 2, cur_sb = 0, capacity_sb = 2\<rparr>"









section \<open>Aligned allocation (namespace saqlib::memory)\<close>

text \<open>
  Modelled from the spec: \<open>utils::rd_up_to_multiple_of\<close> lives in \<open>utils/tools.hpp\<close>,
  which is not among the sources; it rounds \<open>x\<close> up to the next multiple of \<open>m\<close>, so
  that the allocation is a whole number of aligned units.
\<close>

definition rd_up_to_multiple_of :: "nat \<Rightarrow> nat \<Rightarrow> nat" where
  "rd_up_to_multiple_of x m = ((x + m - 1) div m) * m"

text \<open>
  \<open>std::memset(p, 0, n)\<close> on a block of bytes: the first \<open>n\<close> bytes become zero, the
  others keep their value. Writing past the block is undefined behaviour.
\<close>

definition memset_zero :: "8 word list \<Rightarrow> nat \<Rightarrow> 8 word list option" where
  "memset_zero p n = (if n \<le> length p then Some (replicate n 0 @ drop n p) else None)"

text \<open>
  \<open>align_mm<alignment, T>(size)\<close>. \<open>std::aligned_alloc\<close> is the parameter
  \<open>aligned_alloc\<close>: given the alignment and the number of bytes it yields the block with
  the bytes it happens to hold (the content of fresh storage is indeterminate), or
  \<open>None\<close> for a null pointer, which \<open>memset\<close> must not be given. \<open>sizeof_T\<close> is
  \<open>sizeof(T)\<close>. The \<open>madvise\<close> call does not change the content of the block.
\<close>

definition align_mm ::
  "(nat \<Rightarrow> nat \<Rightarrow> 8 word list option) \<Rightarrow> nat \<Rightarrow> nat \<Rightarrow> nat \<Rightarrow> 8 word list option" where
  "align_mm aligned_alloc alignment sizeof_T size_n =
     (let nbytes = rd_up_to_multiple_of (size_n * sizeof_T) alignment in
      case aligned_alloc alignment nbytes of
        None \<Rightarrow> None
      | Some p \<Rightarrow> memset_zero p size_n)"

section \<open>Estimators (namespace saqlib: CaqCluEstimator, CaqCluEstimatorSingle)\<close>

text \<open>
  The \<open>float\<close> members and locals of the estimators are values of \<open>fval\<close>, and every
  arithmetic operation of the source is the rounded operation of its type, one
  rounding for each operator as the source writes them; a compiler that fuses a
  product and a sum into one rounding is not modelled. The reductions of Eigen, whose
  order of evaluation the library chooses, are parameters.
\<close>

datatype DistType = Any | L2Sqr | IP

record QueryRuntimeMetrics =
  fast_bitsum :: "64 word"
  acc_bitsum :: "64 word"
  total_comp_cnt :: "64 word"

text \<open>
  Modelled from the spec: \<open>SearcherConfig\<close> is declared in \<open>quantization/config.h\<close>,
  which is not among the sources. The record holds the two options the estimators
  read (section 6); the multiplier is taken to be a \<open>float\<close>.
\<close>

record SearcherConfig =
  dist_type :: DistType
  searcher_vars_bound_m :: fval

text \<open>
  Modelled from the spec: \<open>BaseQuantizerData\<close> is declared in
  \<open>quantization/quantizer_data.hpp\<close>, which is not among the sources. The record holds
  the members the constructors read (section 3): the padded dimension, the number of
  bits, the layout flag \<open>cfg.use_fastscan\<close> and the rotator, as the list of the rows of
  \<open>P\<close> or \<open>None\<close> for a null pointer.
\<close>

record BaseQuantizerData =
  num_dim_pad :: "64 word"
  num_bits :: "8 word"
  use_fastscan :: bool
  rotator :: "fval list list option"

text \<open>
  Modelled from the spec: \<open>ExFactor\<close> is declared in a header that is not among the
  sources; the estimators read its member \<open>rescale\<close>, a \<open>float\<close> (section 3).
\<close>

record ExFactor =
  rescale :: fval

text \<open>
  Modelled from the spec: \<open>CAQClusterData\<close> is declared in
  \<open>quantization/cluster_data.hpp\<close>, which is not among the sources. The record holds
  the accessors of section 4.B that the cluster estimators call. A pointer to the 32
  norms of a block is the function from the offset to the value; a pointer to a code
  is the list of its bytes.
\<close>

record CAQClusterData =
  centroid :: "fval list"
  factor_o_l2norm :: "nat \<Rightarrow> nat \<Rightarrow> fval"
  short_code :: "nat \<Rightarrow> 8 word list"
  long_code :: "nat \<Rightarrow> 8 word list"
  long_factor :: "nat \<Rightarrow> ExFactor"

subsection \<open>Eigen row vectors\<close>

text \<open>
  A \<open>FloatVec\<close> is the list of its coefficients. A sum of many terms is rounded after
  each addition, so its value depends on the order in which Eigen adds, which depends
  on the vector width it was compiled for. The record \<open>Eigen\<close> holds these functions:
  the product of a row vector with a matrix given by its rows, \<open>dot\<close>, \<open>squaredNorm\<close>
  and \<open>sum\<close>, and what \<open>minCoeff\<close> and \<open>maxCoeff\<close> yield for a vector with a NaN in it,
  which depends on the order too.
\<close>

record Eigen =
  vec_mat_prod :: "fval list \<Rightarrow> fval list list \<Rightarrow> fval list"
  dot :: "fval list \<Rightarrow> fval list \<Rightarrow> fval"
  squaredNorm :: "fval list \<Rightarrow> fval"
  sum_coeffs :: "fval list \<Rightarrow> fval"
  minCoeff_nan :: "fval list \<Rightarrow> fval"
  maxCoeff_nan :: "fval list \<Rightarrow> fval"

text \<open>Operands of different sizes are undefined behaviour.\<close>

definition vec_dot :: "Eigen \<Rightarrow> fval list \<Rightarrow> fval list \<Rightarrow> error + fval" where
  "vec_dot eg a b =
     (if length a = length b then Inr (dot eg a b) else Inl UndefinedBehaviour)"

text \<open>The difference of two vectors is taken coefficient by coefficient.\<close>

definition vec_sub :: "fval list \<Rightarrow> fval list \<Rightarrow> error + fval list" where
  "vec_sub a b =
     (if length a = length b then Inr (map2 f32_sub a b) else Inl UndefinedBehaviour)"

definition vec_mat :: "Eigen \<Rightarrow> fval list \<Rightarrow> fval list list \<Rightarrow> error + fval list" where
  "vec_mat eg q P =
     (if length q = length P \<and> P \<noteq> [] \<and> list_all (\<lambda>r. length r = length (hd P)) P
      then Inr (vec_mat_prod eg q P)
      else Inl UndefinedBehaviour)"



subsection \<open>Lookup table\<close>

text \<open>
  Modelled from the spec: the class \<open>Lut\<close> (\<open>quantization/fastscan/lut.hpp\<close>) is not
  among the sources. Section 4.C: \<open>Lut(D, ex_bits)\<close> reserves storage; \<open>prepare(q)\<close>
  stores \<open>q_l2sqr = q \<cdot> q\<close> and fills tables that are functions of \<open>q\<close> (kept here as
  \<open>q\<close> itself); \<open>getQL2Sqr\<close> returns the stored value. How \<open>prepare\<close> computes
  \<open>q \<cdot> q\<close> in floating point, and what \<open>compFastIP\<close> and \<open>getExtIP\<close> compute, are
  parameters of the functions that call them.
\<close>

record Lut =
  lut_num_dim :: "64 word"
  lut_ex_bits :: "8 word"
  lut_query :: "fval list"
  lut_q_l2sqr :: fval

text \<open>
  Modelled from the spec: the constructor \<open>Lut(D, ex_bits)\<close>, which reserves storage
  (section 4.C); nothing is prepared yet.
\<close>

definition Lut_new :: "64 word \<Rightarrow> 8 word \<Rightarrow> Lut" where
  "Lut_new D eb = \<lparr>lut_num_dim = D, lut_ex_bits = eb, lut_query = [], lut_q_l2sqr = Fin 0\<rparr>"

text \<open>
  Modelled from the spec: \<open>Lut::prepare(q)\<close>, step 1 of section 4.C: store
  \<open>q_l2sqr = q \<cdot> q\<close>, computed by the parameter \<open>qq\<close>. The tables of steps 2 and 3
  are determined by \<open>q\<close>.
\<close>

definition lut_prepare :: "(fval list \<Rightarrow> fval) \<Rightarrow> fval list \<Rightarrow> Lut \<Rightarrow> Lut" where
  "lut_prepare qq q l = l\<lparr>lut_query := q, lut_q_l2sqr := qq q\<rparr>"

text \<open>Modelled from the spec: \<open>Lut::getQL2Sqr()\<close> returns the stored \<open>q_l2sqr\<close>.\<close>

definition getQL2Sqr :: "Lut \<Rightarrow> fval" where
  "getQL2Sqr l = lut_q_l2sqr l"

subsection \<open>SIMD registers\<close>

text \<open>
  A \<open>__m512\<close> holding sixteen floats is the list of its lanes. \<open>_mm512_max_ps(a, b)\<close>
  yields in each lane \<open>a\<close> if \<open>a > b\<close> and \<open>b\<close> otherwise, so \<open>b\<close> when one of them is
  NaN.
\<close>

type_synonym m512 = "fval list"

definition mm512_set1_ps :: "fval \<Rightarrow> m512" where
  "mm512_set1_ps x = replicate 16 x"

definition mm512_load_ps :: "(nat \<Rightarrow> fval) \<Rightarrow> nat \<Rightarrow> m512" where
  "mm512_load_ps p off = map (\<lambda>k. p (off + k)) [0..<16]"

definition mm512_add_ps :: "m512 \<Rightarrow> m512 \<Rightarrow> m512" where
  "mm512_add_ps a b = map2 f32_add a b"

definition mm512_sub_ps :: "m512 \<Rightarrow> m512 \<Rightarrow> m512" where
  "mm512_sub_ps a b = map2 f32_sub a b"

definition mm512_mul_ps :: "m512 \<Rightarrow> m512 \<Rightarrow> m512" where
  "mm512_mul_ps a b = map2 f32_mul a b"

definition mm512_max_ps :: "m512 \<Rightarrow> m512 \<Rightarrow> m512" where
  "mm512_max_ps a b = map2 (\<lambda>x y. if flt y x then x else y) a b"

subsection \<open>CaqCluEstimator\<close>

text \<open>
  The template parameter \<open>kDistType\<close> is a field of the record. \<open>curr_cluster_\<close> is a
  raw pointer that the constructor leaves unset: \<open>None\<close> until \<open>prepare\<close> stores one.
  \<open>sq_delta_\<close> is a \<open>double\<close>.
\<close>

record CaqCluEstimator =
  kDistType :: DistType
  num_dim_padded :: "64 word"
  num_bits_e :: "8 word"
  ex_bits :: "8 word"
  cfg :: SearcherConfig
  query_data :: "fval list"
  without_ip_prune_bound :: fval
  sq_delta :: fval
  ip_q_c :: fval
  q_l2sqr :: fval
  lut :: Lut
  curr_cluster :: "CAQClusterData option"
  runtime_statics :: QueryRuntimeMetrics

definition isIpDist :: "CaqCluEstimator \<Rightarrow> bool" where
  "isIpDist e \<longleftrightarrow>
     kDistType e = IP \<or> (kDistType e = Any \<and> dist_type (cfg e) = IP)"

text \<open>
  The constructor. The member initialisers run before the two \<open>CHECK\<close>s of the body.
  \<open>1 << num_bits_\<close> is a shift of an \<open>int\<close>: it is the power of two as long as that
  fits, and 31 bits or more overflow the \<open>int\<close>. The quotient \<open>2.0 / (1 << num_bits_)\<close>
  is then a power of two that a \<open>double\<close> holds exactly.
\<close>

definition CaqCluEstimator_new ::
  "Eigen \<Rightarrow> DistType \<Rightarrow> BaseQuantizerData \<Rightarrow> SearcherConfig \<Rightarrow> fval list
     \<Rightarrow> error + CaqCluEstimator" where
  "CaqCluEstimator_new eg kdt data_q c query =
     (if 31 \<le> unat (num_bits data_q) then Inl UndefinedBehaviour
      else if \<not> (kdt = Any \<or> kdt = dist_type c) then
        Inl (CheckFailed ''distance type mismatch'')
      else if \<not> use_fastscan data_q then
        Inl (CheckFailed
          ''CaqEstimator require fastscan enabled. Please use CaqSingleEstimator instead.'')
      else
        (case (case rotator data_q of Some P \<Rightarrow> vec_mat eg query P | None \<Rightarrow> Inr query) of
           Inl err \<Rightarrow> Inl err
         | Inr qd \<Rightarrow>
             (let nb = num_bits data_q;
                  eb = (if nb \<noteq> 0 then nb - 1 else 0)
              in Inr \<lparr>kDistType = kdt,
                      num_dim_padded = num_dim_pad data_q,
                      num_bits_e = nb,
                      ex_bits = eb,
                      cfg = c,
                      query_data = qd,
                      without_ip_prune_bound = Fin 0,
                      sq_delta = Fin (2 / 2 ^ unat nb),
                      ip_q_c = Fin 0,
                      q_l2sqr = Fin 0,
                      lut = Lut_new (num_dim_pad data_q) eb,
                      curr_cluster = None,
                      runtime_statics =
                        \<lparr>fast_bitsum = 0, acc_bitsum = 0, total_comp_cnt = 0\<rparr>\<rparr>)))"

definition setPruneBound :: "fval \<Rightarrow> CaqCluEstimator \<Rightarrow> CaqCluEstimator" where
  "setPruneBound vars e =
     e\<lparr>without_ip_prune_bound := f32_mul vars (searcher_vars_bound_m (cfg e))\<rparr>"

definition getRuntimeMetrics :: "CaqCluEstimator \<Rightarrow> QueryRuntimeMetrics" where
  "getRuntimeMetrics e = runtime_statics e"

definition prepare ::
  "Eigen \<Rightarrow> (fval list \<Rightarrow> fval) \<Rightarrow> CAQClusterData \<Rightarrow> CaqCluEstimator
     \<Rightarrow> error + CaqCluEstimator" where
  "prepare eg qq cur_cluster e =
     (let e1 = e\<lparr>curr_cluster := Some cur_cluster\<rparr> in
      if isIpDist e1 then
        (case vec_dot eg (query_data e1) (centroid cur_cluster) of
           Inl err \<Rightarrow> Inl err
         | Inr ip \<Rightarrow>
             (let l = lut_prepare qq (query_data e1) (lut e1)
              in Inr (e1\<lparr>ip_q_c := ip, lut := l, q_l2sqr := getQL2Sqr l\<rparr>)))
      else
        (case vec_sub (query_data e1) (centroid cur_cluster) of
           Inl err \<Rightarrow> Inl err
         | Inr qc \<Rightarrow>
             (let l = lut_prepare qq qc (lut e1)
              in Inr (e1\<lparr>lut := l, q_l2sqr := getQL2Sqr l\<rparr>))))"

text \<open>
  The output argument \<open>__m512 *fst_distances\<close> is \<open>None\<close> for \<open>nullptr\<close> and otherwise
  the two registers it points to; the functions return what it points to afterwards.
\<close>

definition varsEstDist ::
  "CaqCluEstimator \<Rightarrow> nat \<Rightarrow> (m512 \<times> m512) option \<Rightarrow> error + (m512 \<times> m512) option" where
  "varsEstDist e block_idx fst_distances =
     (case fst_distances of
        None \<Rightarrow> Inr None
      | Some old \<Rightarrow>
          if isIpDist e then
            (let factor_vec = mm512_set1_ps (f32_sub (ip_q_c e) (without_ip_prune_bound e))
             in Inr (Some (factor_vec, factor_vec)))
          else
            (case curr_cluster e of
               None \<Rightarrow> Inl UndefinedBehaviour
             | Some cl \<Rightarrow>
                 (let factor_x = factor_o_l2norm cl block_idx;
                      factor_vec = mm512_set1_ps
                        (f32_sub (q_l2sqr e) (f32_mul (Fin 2) (without_ip_prune_bound e)));
                      zero_vec = mm512_set1_ps (Fin 0);
                      est = (\<lambda>j. let factor_x_vec = mm512_load_ps factor_x j;
                                      squared_vec = mm512_mul_ps factor_x_vec factor_x_vec
                                  in mm512_max_ps zero_vec (mm512_add_ps squared_vec factor_vec))
                  in Inr (Some (est 0, est 16)))))"

text \<open>
  \<open>compFastDist\<close>. The parameter \<open>compFastIP\<close> stands for \<open>Lut::compFastIP\<close>: from the
  table, the norms, the short code and whether an output is wanted it gives the new
  table and the two registers of raw values, which reach \<open>fst_distances\<close> only when
  that is not null.
\<close>

definition compFastDist ::
  "(Lut \<Rightarrow> (nat \<Rightarrow> fval) \<Rightarrow> 8 word list \<Rightarrow> bool \<Rightarrow> Lut \<times> m512 \<times> m512) \<Rightarrow>
   CaqCluEstimator \<Rightarrow> nat \<Rightarrow> (m512 \<times> m512) option \<Rightarrow>
   error + (CaqCluEstimator \<times> (m512 \<times> m512) option)" where
  "compFastDist compFastIP e block_idx fst_distances =
     (if num_bits_e e = 0 then
        (case varsEstDist e block_idx fst_distances of
           Inl err \<Rightarrow> Inl err
         | Inr out \<Rightarrow> Inr (e, out))
      else
        (case curr_cluster e of
           None \<Rightarrow> Inl UndefinedBehaviour
         | Some cl \<Rightarrow>
             (let o_l2norm = factor_o_l2norm cl block_idx;
                  (l, raw0, raw1) =
                     compFastIP (lut e) o_l2norm (short_code cl block_idx) (fst_distances \<noteq> None);
                  e1 = e\<lparr>lut := l\<rparr>
              in case fst_distances of
                   None \<Rightarrow> Inr (e1, None)
                 | Some old \<Rightarrow>
                     (let out =
                        (if isIpDist e1 then
                           (let simd_qc_ip = mm512_set1_ps (ip_q_c e1);
                                naghalf_c = mm512_set1_ps (Fin (1 / 2))
                            in (mm512_add_ps (mm512_mul_ps raw0 naghalf_c) simd_qc_ip,
                                mm512_add_ps (mm512_mul_ps raw1 naghalf_c) simd_qc_ip))
                         else
                           (let simd_q2c_dist2 = mm512_set1_ps (q_l2sqr e1);
                                simd_x0 = mm512_load_ps o_l2norm 0;
                                simd_x1 = mm512_load_ps o_l2norm 16;
                                d0 = mm512_add_ps (mm512_mul_ps simd_x0 simd_x0)
                                       (mm512_sub_ps simd_q2c_dist2 raw0);
                                d1 = mm512_add_ps (mm512_mul_ps simd_x1 simd_x1)
                                       (mm512_sub_ps simd_q2c_dist2 raw1)
                            in (mm512_max_ps (mm512_set1_ps (Fin 0)) d0,
                                mm512_max_ps (mm512_set1_ps (Fin 0)) d1)));
                          rs = runtime_statics e1
                      in Inr (e1\<lparr>runtime_statics :=
                                   rs\<lparr>fast_bitsum := fast_bitsum rs + 32 * num_dim_padded e1\<rparr>\<rparr>,
                              Some out)))))"

text \<open>
  \<open>compAccurateDist\<close>. The parameter \<open>getExtIP\<close> stands for \<open>Lut::getExtIP\<close>, which
  is given the \<open>double\<close> \<open>sq_delta_\<close> and is taken to yield a \<open>float\<close>.
  In \<open>num_dim_padded_ * (num_bits_ - 1)\<close> the \<open>uint8_t\<close> is promoted to \<open>int\<close> before
  the subtraction and the difference is converted to \<open>size_t\<close>. In
  \<open>o_l2sqr + q_l2sqr_ - 2 * ip_o_q\<close> the sum is taken first and the \<open>int\<close> 2 is
  converted to \<open>float\<close>.
\<close>

definition compAccurateDist ::
  "(Lut \<Rightarrow> 8 word list \<Rightarrow> fval \<Rightarrow> nat \<Rightarrow> fval) \<Rightarrow>
   CaqCluEstimator \<Rightarrow> nat \<Rightarrow> error + (fval \<times> CaqCluEstimator)" where
  "compAccurateDist getExtIP e vec_idx =
     (let blk_idx = vec_idx div 32;
          j = vec_idx mod 32
      in case curr_cluster e of
           None \<Rightarrow> Inl UndefinedBehaviour
         | Some cl \<Rightarrow>
             (let o_l2norm = factor_o_l2norm cl blk_idx j;
                  o_l2sqr = f32_mul o_l2norm o_l2norm
              in if num_bits_e e = 0 then
                   (if isIpDist e then Inr (ip_q_c e, e)
                    else Inr (f32_add o_l2sqr (q_l2sqr e), e))
                 else
                   (let code = long_code cl vec_idx;
                        ex_fac = long_factor cl vec_idx;
                        ip_o_q = f32_mul (rescale ex_fac) (getExtIP (lut e) code (sq_delta e) j);
                        rs = runtime_statics e;
                        e1 = e\<lparr>runtime_statics :=
                                 rs\<lparr>acc_bitsum := acc_bitsum rs
                                     + num_dim_padded e * (word_of_int (uint (num_bits_e e) - 1))\<rparr>\<rparr>
                    in if dist_type (cfg e) = IP then Inr (f32_add ip_o_q (ip_q_c e), e1)
                       else Inr (f32_sub (f32_add o_l2sqr (q_l2sqr e))
                                   (f32_mul (Fin 2) ip_o_q), e1))))"

subsection \<open>CaqEstimatorSingleImpl and CaqCluEstimatorSingle\<close>







subsection \<open>Inputs of the examples\<close>

text \<open>
  An instance of Eigen that adds from left to right, and the same for the table.
\<close>

definition seq_dot :: "fval list \<Rightarrow> fval list \<Rightarrow> fval" where
  "seq_dot a b = foldl (\<lambda>acc (x, y). f32_add acc (f32_mul x y)) (Fin 0) (zip a b)"

definition seq_eigen :: Eigen where
  "seq_eigen =
     \<lparr>vec_mat_prod = (\<lambda>q P. map (seq_dot q) (transpose P)),
      dot = seq_dot,
      squaredNorm = (\<lambda>q. seq_dot q q),
      sum_coeffs = foldl f32_add (Fin 0),
      minCoeff_nan = (\<lambda>q. NaN),
      maxCoeff_nan = (\<lambda>q. NaN)\<rparr>"

definition seq_qq :: "fval list \<Rightarrow> fval" where
  "seq_qq q = seq_dot q q"

text \<open>
  A quantizer with \<open>D = 64\<close> and no rotator, with one bit and with no bit; a cluster
  whose centroid is the first unit vector and whose vectors all have norm 2 relative
  to it, and a cluster whose centroid is zero and whose vectors have the norm that the
  \<open>float\<close> literal \<open>0.1f\<close> denotes; and the estimators that the constructor gives for
  the zero query and that \<open>prepare\<close> makes of them. The two stand-ins for the table's
  functions leave the table as it is and yield zero. For the single-vector estimator:
  an estimator of either distance type before \<open>prepare\<close>, a stand-in for the bit
  transposition, and a conversion that yields 0 where the standard leaves it open.
\<close>

definition demo_cfg :: SearcherConfig where
  "demo_cfg = \<lparr>dist_type = L2Sqr, searcher_vars_bound_m = Fin 1\<rparr>"

definition demo_data :: "8 word \<Rightarrow> BaseQuantizerData" where
  "demo_data B = \<lparr>num_dim_pad = 64, num_bits = B, use_fastscan = True, rotator = None\<rparr>"

definition demo_cluster :: CAQClusterData where
  "demo_cluster =
     \<lparr>centroid = Fin 1 # replicate 63 (Fin 0),
      factor_o_l2norm = (\<lambda>block_idx j. Fin 2),
      short_code = (\<lambda>block_idx. replicate 256 0),
      long_code = (\<lambda>vec_idx. []),
      long_factor = (\<lambda>vec_idx. \<lparr>rescale = Fin 1\<rparr>)\<rparr>"

definition demo_cluster_zero :: CAQClusterData where
  "demo_cluster_zero =
     \<lparr>centroid = replicate 64 (Fin 0),
      factor_o_l2norm = (\<lambda>block_idx j. Fin (13421773 / 134217728)),
      short_code = (\<lambda>block_idx. replicate 256 0),
      long_code = (\<lambda>vec_idx. []),
      long_factor = (\<lambda>vec_idx. \<lparr>rescale = Fin 1\<rparr>)\<rparr>"

definition demo_compFastIP ::
  "Lut \<Rightarrow> (nat \<Rightarrow> fval) \<Rightarrow> 8 word list \<Rightarrow> bool \<Rightarrow> Lut \<times> m512 \<times> m512" where
  "demo_compFastIP l o_l2norm code wanted = (l, replicate 16 (Fin 0), replicate 16 (Fin 0))"

definition demo_getExtIP :: "Lut \<Rightarrow> 8 word list \<Rightarrow> fval \<Rightarrow> nat \<Rightarrow> fval" where
  "demo_getExtIP l code sq_d j = Fin 0"

definition demo_fresh_b1 :: CaqCluEstimator where
  "demo_fresh_b1 =
     \<lparr>kDistType = L2Sqr, num_dim_padded = 64, num_bits_e = 1, ex_bits = 0, cfg = demo_cfg,
      query_data = replicate 64 (Fin 0), without_ip_prune_bound = Fin 0, sq_delta = Fin 1,
      ip_q_c = Fin 0, q_l2sqr = Fin 0,
      lut = \<lparr>lut_num_dim = 64, lut_ex_bits = 0, lut_query = [], lut_q_l2sqr = Fin 0\<rparr>,
      curr_cluster = None,
      runtime_statics = \<lparr>fast_bitsum = 0, acc_bitsum = 0, total_comp_cnt = 0\<rparr>\<rparr>"

definition demo_prepared_b1 :: CaqCluEstimator where
  "demo_prepared_b1 =
     demo_fresh_b1
       \<lparr>q_l2sqr := Fin 1,
        lut := \<lparr>lut_num_dim = 64, lut_ex_bits = 0,
                lut_query = Fin (- 1) # replicate 63 (Fin 0), lut_q_l2sqr = Fin 1\<rparr>,
        curr_cluster := Some demo_cluster\<rparr>"

definition demo_fresh_b0 :: CaqCluEstimator where
  "demo_fresh_b0 = demo_fresh_b1\<lparr>num_bits_e := 0, sq_delta := Fin 2\<rparr>"

definition demo_prepared_b0 :: CaqCluEstimator where
  "demo_prepared_b0 = demo_prepared_b1\<lparr>num_bits_e := 0, sq_delta := Fin 2\<rparr>"

definition demo_prepared_zero :: CaqCluEstimator where
  "demo_prepared_zero =
     demo_fresh_b0
       \<lparr>lut := \<lparr>lut_num_dim = 64, lut_ex_bits = 0, lut_query = replicate 64 (Fin 0),
                lut_q_l2sqr = Fin 0\<rparr>,
        curr_cluster := Some demo_cluster_zero\<rparr>"




section \<open>Properties of the comparisons\<close>


lemma fle_not_NaN: "fle a b \<Longrightarrow> a \<noteq> NaN \<and> b \<noteq> NaN"
  by (cases a; cases b) (simp_all add: fle_def)







section \<open>Properties of the beam buffer\<close>

text \<open>The loops are unfolded by hand, one iteration at a time.\<close>

declare bs_loop.simps [simp del]

declare pop_loop.simps [simp del]

subsection \<open>The binary search\<close>

text \<open>Whatever the distances, the search stays inside \<open>[0, size_]\<close>.\<close>

lemma bs_loop_bounds:
  assumes "sz \<le> length d" "lo + len \<le> sz"
  shows "\<exists>lo'. bs_loop d dis lo len = Some lo' \<and> lo \<le> lo'
     \<and> lo' + (if len = 0 then 0 else 1) \<le> lo + len"
  using assms
proof (induction d dis lo len rule: bs_loop.induct)
  case (1 d dis lo len)
  show ?case
  proof (cases "1 < len")
    case False
    then show ?thesis by (auto simp: bs_loop.simps[of d dis lo len])
  next
    case True
    define half where "half = len div 2"
    have h: "1 \<le> half" "half \<le> len - half" "half < len" using True by (auto simp: half_def)
    have inb: "lo + half - 1 < length d" using h "1.prems" by linarith
    define c where "c = d ! (lo + half - 1)"
    have ea: "elem_at d (lo + half - 1) = Some c" using inb by (simp add: elem_at_def c_def)
    define lo1 where "lo1 = lo + (if flt (distance c) dis then 1 else 0) * half"
    have p1: "lo1 + (len - half) \<le> sz" using h "1.prems"(2) by (auto simp: lo1_def)
    have IH: "\<exists>lo'. bs_loop d dis lo1 (len - half) = Some lo' \<and> lo1 \<le> lo'
        \<and> lo' + (if len - half = 0 then 0 else 1) \<le> lo1 + (len - half)"
      using "1.IH"[OF True half_def ea "1.prems"(1)] p1 unfolding lo1_def by blast
    have unf: "bs_loop d dis lo len = bs_loop d dis lo1 (len - half)"
      using True ea by (simp add: bs_loop.simps[of d dis lo len] Let_def half_def[symmetric] lo1_def)
    have "lo1 + (len - half) \<le> lo + len" "lo \<le> lo1" "len - half \<noteq> 0" "len \<noteq> 0"
      using h by (auto simp: lo1_def)
    then show ?thesis using IH unf by auto
  qed
qed

lemma binary_search_bounds:
  assumes "size_sb sb \<le> length (data_sb sb)"
  shows "\<exists>lo. binary_search sb dis = Some lo \<and> lo \<le> size_sb sb
     \<and> (lo = size_sb sb \<and> 0 < size_sb sb
          \<longrightarrow> flt (distance (data_sb sb ! (size_sb sb - 1))) dis)"
proof -
  obtain lo' where L: "bs_loop (data_sb sb) dis 0 (size_sb sb) = Some lo'"
      "lo' + (if size_sb sb = 0 then 0 else 1) \<le> size_sb sb"
    using bs_loop_bounds[OF assms, of 0 "size_sb sb" dis] by auto
  show ?thesis
  proof (cases "lo' < size_sb sb")
    case False
    then show ?thesis using L by (auto simp: binary_search_def split: if_splits)
  next
    case True
    then have ea: "elem_at (data_sb sb) lo' = Some (data_sb sb ! lo')"
      using assms by (simp add: elem_at_def)
    show ?thesis
    proof (cases "flt (distance (data_sb sb ! lo')) dis")
      case T: True
      have "binary_search sb dis = Some (lo' + 1)"
        using L(1) True ea T by (simp add: binary_search_def)
      moreover have "lo' + 1 = size_sb sb \<longrightarrow> lo' = size_sb sb - 1" by auto
      ultimately show ?thesis using True T by auto
    next
      case F: False
      have "binary_search sb dis = Some lo'"
        using L(1) True ea F by (simp add: binary_search_def)
      then show ?thesis using True by auto
    qed
  qed
qed





subsection \<open>Insertion\<close>

lemma memmove_store:
  assumes "lo \<le> sz" "sz < length d" "lo + 1 < length d"
  shows "memmove_right d lo (sz - lo) = Some (take (lo + 1) d @ take (sz - lo) (drop lo d) @ drop (sz + 1) d)"
    and "(take (lo + 1) d @ take (sz - lo) (drop lo d) @ drop (sz + 1) d)[lo := c]
         = take lo d @ c # take (sz - lo) (drop lo d) @ drop (sz + 1) d"
proof -
  show "memmove_right d lo (sz - lo) = Some (take (lo + 1) d @ take (sz - lo) (drop lo d) @ drop (sz + 1) d)"
    using assms by (simp add: memmove_right_def)
  have "take (lo + 1) d = take lo d @ [d ! lo]"
    using assms by (simp add: take_Suc_conv_app_nth)
  then show "(take (lo + 1) d @ take (sz - lo) (drop lo d) @ drop (sz + 1) d)[lo := c]
         = take lo d @ c # take (sz - lo) (drop lo d) @ drop (sz + 1) d"
    using assms by (simp add: list_update_append)
qed

lemma is_full_dist_Some:
  assumes "sb_inv sb" "length (data_sb sb) = capacity_sb sb + 1" "1 \<le> capacity_sb sb"
  shows "is_full_dist sb dis =
     Some (if size_sb sb = capacity_sb sb
           then flt (distance (data_sb sb ! (capacity_sb sb - 1))) dis else flt flt_max dis)"
  using assms
  by (auto simp: is_full_dist_def top_dist_def is_full_def sb_inv_def elem_at_def)

lemma insert_sb_full:
  assumes "is_full_dist sb dis = Some True"
  shows "insert_sb i dis sb = Some sb"
  using assms by (simp add: insert_sb_def)

text \<open>What an insertion that is not rejected does to a buffer with its \<open>capacity_ + 1\<close> slots.\<close>

lemma insert_sb_result:
  assumes inv: "sb_inv sb" and len: "length (data_sb sb) = capacity_sb sb + 1"
    and C: "1 \<le> capacity_sb sb" and nf: "is_full_dist sb dis = Some False"
  shows "\<exists>lo. binary_search sb dis = Some lo \<and> lo \<le> size_sb sb \<and> lo < capacity_sb sb
     \<and> insert_sb i dis sb = Some (sb\<lparr>data_sb :=
            take lo (data_sb sb) @ \<lparr>id_c = i, distance = dis\<rparr>
              # take (size_sb sb - lo) (drop lo (data_sb sb)) @ drop (size_sb sb + 1) (data_sb sb),
          size_sb := size_sb sb + (if size_sb sb < capacity_sb sb then 1 else 0),
          cur_sb := (if lo < cur_sb sb then lo else cur_sb sb)\<rparr>)"
proof -
  have sz: "size_sb sb \<le> capacity_sb sb" using inv by (simp add: sb_inv_def)
  obtain lo where lo: "binary_search sb dis = Some lo" "lo \<le> size_sb sb"
      "lo = size_sb sb \<and> 0 < size_sb sb
          \<longrightarrow> flt (distance (data_sb sb ! (size_sb sb - 1))) dis"
    using binary_search_bounds[of sb dis] len sz by auto
  have loC: "lo < capacity_sb sb"
  proof (cases "size_sb sb = capacity_sb sb")
    case False then show ?thesis using lo(2) sz by simp
  next
    case True
    have "\<not> flt (distance (data_sb sb ! (capacity_sb sb - 1))) dis"
      using nf is_full_dist_Some[OF inv len C, of dis] True by simp
    then have "lo \<noteq> size_sb sb" using lo(3) True C by auto
    then show ?thesis using lo(2) True by simp
  qed
  have a: "lo \<le> size_sb sb" "size_sb sb < length (data_sb sb)" "lo + 1 < length (data_sb sb)"
    using lo(2) sz len loC by auto
  have "insert_sb i dis sb = Some (sb\<lparr>data_sb :=
            take lo (data_sb sb) @ \<lparr>id_c = i, distance = dis\<rparr>
              # take (size_sb sb - lo) (drop lo (data_sb sb)) @ drop (size_sb sb + 1) (data_sb sb),
          size_sb := size_sb sb + (if size_sb sb < capacity_sb sb then 1 else 0),
          cur_sb := (if lo < cur_sb sb then lo else cur_sb sb)\<rparr>)"
    using nf lo(1) lo(2) memmove_store[OF a] by (simp add: insert_sb_def)
  then show ?thesis using lo loC by blast
qed

text \<open>
  A buffer of capacity 0, or one built with \<open>SIZE_MAX\<close>, which has no slot: an
  insertion is rejected or runs into undefined behaviour.
\<close>

lemma insert_sb_improper:
  assumes inv: "sb_inv sb"
    and imp: "\<not> (length (data_sb sb) = capacity_sb sb + 1 \<and> 1 \<le> capacity_sb sb)"
  shows "insert_sb i dis sb = None \<or> insert_sb i dis sb = Some sb"
proof (cases "capacity_sb sb = 0")
  case True
  then have "size_sb sb = 0" using inv by (simp add: sb_inv_def)
  then have "is_full_dist sb dis = None"
    using True by (simp add: is_full_dist_def top_dist_def is_full_def)
  then show ?thesis by (simp add: insert_sb_def)
next
  case False
  then have e: "data_sb sb = []" "size_sb sb = 0" using inv imp by (auto simp: sb_inv_def)
  have f: "is_full_dist sb dis = Some (flt flt_max dis)"
    using False e by (simp add: is_full_dist_def top_dist_def is_full_def)
  have b: "binary_search sb dis = Some 0"
    using e by (simp add: binary_search_def bs_loop.simps[of "[]" dis 0 0])
  show ?thesis
    using f b e by (cases "flt flt_max dis") (simp_all add: insert_sb_def memmove_right_def)
qed

lemma insert_sb_cases:
  assumes inv: "sb_inv sb" and ins: "insert_sb i dis sb = Some sb'"
  shows "sb' = sb \<or>
     (length (data_sb sb) = capacity_sb sb + 1 \<and> 1 \<le> capacity_sb sb
      \<and> is_full_dist sb dis = Some False
      \<and> (\<exists>lo. binary_search sb dis = Some lo \<and> lo \<le> size_sb sb \<and> lo < capacity_sb sb
           \<and> sb' = sb\<lparr>data_sb :=
                take lo (data_sb sb) @ \<lparr>id_c = i, distance = dis\<rparr>
                  # take (size_sb sb - lo) (drop lo (data_sb sb))
                  @ drop (size_sb sb + 1) (data_sb sb),
              size_sb := size_sb sb + (if size_sb sb < capacity_sb sb then 1 else 0),
              cur_sb := (if lo < cur_sb sb then lo else cur_sb sb)\<rparr>))"
proof (cases "length (data_sb sb) = capacity_sb sb + 1 \<and> 1 \<le> capacity_sb sb")
  case False
  then show ?thesis using insert_sb_improper[OF inv False, of i dis] ins by auto
next
  case True
  then have len: "length (data_sb sb) = capacity_sb sb + 1" and C: "1 \<le> capacity_sb sb"
    by simp_all
  show ?thesis
  proof (cases "is_full_dist sb dis = Some True")
    case T: True
    then show ?thesis using insert_sb_full[OF T, of i] ins by simp
  next
    case F: False
    then have nf: "is_full_dist sb dis = Some False"
      using is_full_dist_Some[OF inv len C, of dis] by auto
    show ?thesis using insert_sb_result[OF inv len C nf, of i] ins len C nf by auto
  qed
qed


lemma insert_sb_keeps:
  assumes inv: "sb_inv sb" and ins: "insert_sb i dis sb = Some sb'"
  shows "capacity_sb sb' = capacity_sb sb \<and> length (data_sb sb') = length (data_sb sb)"
proof -
  consider "sb' = sb"
    | lo where "length (data_sb sb) = capacity_sb sb + 1" "lo \<le> size_sb sb"
        "sb' = sb\<lparr>data_sb :=
                take lo (data_sb sb) @ \<lparr>id_c = i, distance = dis\<rparr>
                  # take (size_sb sb - lo) (drop lo (data_sb sb))
                  @ drop (size_sb sb + 1) (data_sb sb),
              size_sb := size_sb sb + (if size_sb sb < capacity_sb sb then 1 else 0),
              cur_sb := (if lo < cur_sb sb then lo else cur_sb sb)\<rparr>"
    using insert_sb_cases[OF inv ins] by blast
  then show ?thesis
  proof cases
    case 1
    then show ?thesis by simp
  next
    case (2 lo)
    have "size_sb sb \<le> capacity_sb sb" using inv by (simp add: sb_inv_def)
    then show ?thesis using 2 by simp
  qed
qed




subsection \<open>Popping\<close>








lemma pop_keeps:
  assumes "pop sb = Some (i, sb')"
  shows "capacity_sb sb' = capacity_sb sb \<and> size_sb sb' = size_sb sb
     \<and> length (data_sb sb') = length (data_sb sb)"
  using assms by (auto simp: pop_def Let_def split: option.splits)

subsection \<open>Construction, clearing and resizing\<close>

lemma unat_plus_one: "unat (C + 1 :: 64 word) = (if C = - 1 then 0 else unat C + 1)"
proof (cases "C = - 1")
  case True
  then show ?thesis by simp
next
  case False
  have "1 + C \<noteq> 0"
  proof
    assume "1 + C = 0"
    then have "C = - 1" by (simp add: add_eq_0_iff)
    then show False using False by simp
  qed
  then have "unat (1 + C) = Suc (unat C)" by (rule unatSuc)
  then show ?thesis using False by (simp add: add.commute)
qed





subsection \<open>Reachable states\<close>




subsection \<open>The buffers of the examples\<close>

lemma new_always_ok:
  "SearchBuffer_new always_ok C =
     Inr \<lparr>data_sb = replicate (unat (C + 1)) zero_candidate, size_sb = 0, cur_sb = 0,
          capacity_sb = unat C\<rparr>"
  by (simp add: SearchBuffer_new_def new_vector_def always_ok_def)

lemma new_fresh_1: "SearchBuffer_new always_ok 1 = Inr (fresh_buffer 1)"
proof -
  have u: "unat (1 + 1 :: 64 word) = 2"
    by simp
  show ?thesis
    unfolding new_always_ok fresh_buffer_def u by (simp add: numeral_2_eq_2)
qed















lemma has_next_two_buffer: "has_next two_buffer"
  by (simp add: has_next_def two_buffer_def)





subsection \<open>Sortedness and the bound on the size\<close>




subsection \<open>The order of popping\<close>





subsection \<open>A full buffer\<close>

text \<open>
  Claim C3, as the code has it. On a full buffer, \<open>insert(id, dist)\<close> with \<open>dist\<close>
  strictly greater than \<open>top_dist()\<close>, the distance of the last entry, returns with
  no effect: entries, \<open>size_\<close> and \<open>cur_\<close> are unchanged. The test of
  \<open>is_full(float)\<close> is \<open>dist > top_dist()\<close>, so the boundary \<open>dist = top_dist()\<close> is
  not covered.
\<close>

theorem insert_above_top_dist_no_effect:
  assumes "is_full sb" and "top_dist sb = Some t" and "flt t dis"
  shows "insert_sb data_id dis sb = Some sb"
  using assms by (simp add: insert_sb_def is_full_dist_def)

text \<open>A buffer of capacity 1 that holds \<open>(1, 1.0)\<close>, and \<open>insert(2, 2.0)\<close>.\<close>

theorem insert_above_top_dist_no_effect_witness:
  "is_full \<lparr>data_sb = [\<lparr>id_c = 1, distance = Fin 1\<rparr>, zero_candidate],
            size_sb = 1, cur_sb = 0, capacity_sb = 1\<rparr>
   \<and> top_dist \<lparr>data_sb = [\<lparr>id_c = 1, distance = Fin 1\<rparr>, zero_candidate],
            size_sb = 1, cur_sb = 0, capacity_sb = 1\<rparr> = Some (Fin 1)
   \<and> flt (Fin 1) (Fin 2)
   \<and> insert_sb 2 (Fin 2) \<lparr>data_sb = [\<lparr>id_c = 1, distance = Fin 1\<rparr>, zero_candidate],
            size_sb = 1, cur_sb = 0, capacity_sb = 1\<rparr>
      = Some \<lparr>data_sb = [\<lparr>id_c = 1, distance = Fin 1\<rparr>, zero_candidate],
            size_sb = 1, cur_sb = 0, capacity_sb = 1\<rparr>"
proof -
  have f: "is_full \<lparr>data_sb = [\<lparr>id_c = 1, distance = Fin 1\<rparr>, zero_candidate],
            size_sb = 1, cur_sb = 0, capacity_sb = 1\<rparr>"
    by (simp add: is_full_def)
  have t: "top_dist \<lparr>data_sb = [\<lparr>id_c = 1, distance = Fin 1\<rparr>, zero_candidate],
            size_sb = 1, cur_sb = 0, capacity_sb = 1\<rparr> = Some (Fin 1)"
    by (simp add: top_dist_def is_full_def elem_at_def)
  have l: "flt (Fin 1) (Fin 2)" by simp
  show ?thesis
    using insert_above_top_dist_no_effect[OF f t l, of 2] f t l by simp
qed

text \<open>
  At the boundary the insert is carried out. After \<open>insert(1, 1.0)\<close> a buffer of
  capacity 1 is full with \<open>top_dist() = 1.0\<close>; \<open>insert(2, 1.0)\<close> then stores
  \<open>(2, 1.0)\<close> in slot 0 and moves \<open>(1, 1.0)\<close> out of \<open>[0, size_)\<close>.
\<close>

theorem insert_at_top_dist_counterexample:
  "SearchBuffer_new always_ok 1 = Inr (fresh_buffer 1)
   \<and> insert_sb 1 (Fin 1) (fresh_buffer 1)
     = Some \<lparr>data_sb = [\<lparr>id_c = 1, distance = Fin 1\<rparr>, zero_candidate],
             size_sb = 1, cur_sb = 0, capacity_sb = 1\<rparr>
   \<and> is_full \<lparr>data_sb = [\<lparr>id_c = 1, distance = Fin 1\<rparr>, zero_candidate],
             size_sb = 1, cur_sb = 0, capacity_sb = 1\<rparr>
   \<and> top_dist \<lparr>data_sb = [\<lparr>id_c = 1, distance = Fin 1\<rparr>, zero_candidate],
             size_sb = 1, cur_sb = 0, capacity_sb = 1\<rparr> = Some (Fin 1)
   \<and> insert_sb 2 (Fin 1) \<lparr>data_sb = [\<lparr>id_c = 1, distance = Fin 1\<rparr>, zero_candidate],
             size_sb = 1, cur_sb = 0, capacity_sb = 1\<rparr>
      = Some \<lparr>data_sb = [\<lparr>id_c = 2, distance = Fin 1\<rparr>, \<lparr>id_c = 1, distance = Fin 1\<rparr>],
             size_sb = 1, cur_sb = 0, capacity_sb = 1\<rparr>
   \<and> insert_sb 2 (Fin 1) \<lparr>data_sb = [\<lparr>id_c = 1, distance = Fin 1\<rparr>, zero_candidate],
             size_sb = 1, cur_sb = 0, capacity_sb = 1\<rparr>
      \<noteq> Some \<lparr>data_sb = [\<lparr>id_c = 1, distance = Fin 1\<rparr>, zero_candidate],
             size_sb = 1, cur_sb = 0, capacity_sb = 1\<rparr>"
proof -
  have a: "insert_sb 1 (Fin 1) (fresh_buffer 1)
     = Some \<lparr>data_sb = [\<lparr>id_c = 1, distance = Fin 1\<rparr>, zero_candidate],
             size_sb = 1, cur_sb = 0, capacity_sb = 1\<rparr>"
    by code_simp
  have b: "insert_sb 2 (Fin 1) \<lparr>data_sb = [\<lparr>id_c = 1, distance = Fin 1\<rparr>, zero_candidate],
             size_sb = 1, cur_sb = 0, capacity_sb = 1\<rparr>
      = Some \<lparr>data_sb = [\<lparr>id_c = 2, distance = Fin 1\<rparr>, \<lparr>id_c = 1, distance = Fin 1\<rparr>],
             size_sb = 1, cur_sb = 0, capacity_sb = 1\<rparr>"
    by code_simp
  show ?thesis
    unfolding a b using new_fresh_1
    by (simp add: is_full_def top_dist_def elem_at_def zero_candidate_def)
qed

subsection \<open>Copying the results\<close>






subsection \<open>Inserting before the cursor\<close>








subsection \<open>Resizing\<close>

lemma unat_max_word: "unat (- 1 :: 64 word) = 18446744073709551615"
  by (simp add: unsigned_minus_1_eq_mask mask_eq_exp_minus_1)

text \<open>
  Claim C10, with the cases of the vector written out. \<open>resize(C')\<close> sets the
  capacity to \<open>C'\<close> and leaves \<open>size_\<close> and \<open>cur_\<close> as they were, unlike \<open>clear()\<close>, so
  \<open>has_next()\<close> answers after the call what it answered before it. When the vector can
  be built the storage is replaced by \<open>C' + 1\<close> value-initialised candidates, where the
  sum is the number \<open>C' + 1\<close> for every \<open>C'\<close> below \<open>SIZE_MAX\<close>. When the vector throws
  \<open>std::length_error\<close> the capacity is \<open>C'\<close> and the storage is the old one.
\<close>

theorem resize_keeps_size_and_cur:
  "(vec (unat (C' + 1)) = VecOk \<longrightarrow>
      resize vec C' sb
        = (Inr (), \<lparr>data_sb = replicate (unat (C' + 1)) zero_candidate, size_sb = size_sb sb,
                    cur_sb = cur_sb sb, capacity_sb = unat C'\<rparr>))
   \<and> (vec (unat (C' + 1)) = VecLengthError \<longrightarrow>
      resize vec C' sb
        = (Inl (LengthError ''cannot create std::vector larger than max_size()''),
           \<lparr>data_sb = data_sb sb, size_sb = size_sb sb, cur_sb = cur_sb sb,
            capacity_sb = unat C'\<rparr>))
   \<and> (vec (unat (C' + 1)) = VecNull \<longrightarrow> fst (resize vec C' sb) = Inl UndefinedBehaviour)
   \<and> (vec (unat (C' + 1)) \<noteq> VecNull \<longrightarrow>
        size_sb (snd (resize vec C' sb)) = size_sb sb
      \<and> cur_sb (snd (resize vec C' sb)) = cur_sb sb
      \<and> has_next (snd (resize vec C' sb)) = has_next sb
      \<and> capacity_sb (snd (resize vec C' sb)) = unat C'
      \<and> size_sb (clear (snd (resize vec C' sb))) = 0)
   \<and> (C' \<noteq> - 1 \<longrightarrow> unat (C' + 1) = unat C' + 1)"
proof -
  have "C' \<noteq> - 1 \<longrightarrow> unat (C' + 1) = unat C' + 1"
    by (simp add: unat_plus_one)
  then show ?thesis
    by (cases "vec (unat (C' + 1))")
       (simp_all add: resize_def new_vector_def has_next_def clear_def Let_def)
qed

text \<open>
  \<open>resize(3)\<close> after \<open>insert(1, 1.0)\<close>, \<open>insert(2, 2.0)\<close> on a buffer of capacity 2,
  for a vector that is built, one that throws, and one that gets a null pointer:
  in the first case \<open>has_next()\<close> holds over four fresh slots.
\<close>

theorem resize_keeps_size_and_cur_witness:
  "always_ok (unat (3 + 1 :: 64 word)) = VecOk
   \<and> never_ok (unat (3 + 1 :: 64 word)) = VecLengthError
   \<and> null_alloc (unat (3 + 1 :: 64 word)) = VecNull
   \<and> (3 :: 64 word) \<noteq> - 1
   \<and> unat (3 + 1 :: 64 word) = unat (3 :: 64 word) + 1
   \<and> resize always_ok 3 two_buffer
       = (Inr (), \<lparr>data_sb = replicate 4 zero_candidate, size_sb = 2, cur_sb = 0,
                   capacity_sb = 3\<rparr>)
   \<and> has_next (snd (resize always_ok 3 two_buffer))
   \<and> resize never_ok 3 two_buffer
       = (Inl (LengthError ''cannot create std::vector larger than max_size()''),
          \<lparr>data_sb = data_sb two_buffer, size_sb = 2, cur_sb = 0, capacity_sb = 3\<rparr>)
   \<and> fst (resize null_alloc 3 two_buffer) = Inl UndefinedBehaviour"
proof -
  have a: "always_ok (unat (3 + 1 :: 64 word)) = VecOk"
    "never_ok (unat (3 + 1 :: 64 word)) = VecLengthError"
    "null_alloc (unat (3 + 1 :: 64 word)) = VecNull"
    by (simp_all add: always_ok_def never_ok_def null_alloc_def)
  have n: "(3 :: 64 word) \<noteq> - 1"
    by simp
  have u: "unat (3 + 1 :: 64 word) = 4" "unat (3 :: 64 word) = 3"
    by simp_all
  have s: "size_sb two_buffer = 2" "cur_sb two_buffer = 0"
    by (simp_all add: two_buffer_def)
  note t1 = resize_keeps_size_and_cur[of always_ok 3 two_buffer]
  note t2 = resize_keeps_size_and_cur[of never_ok 3 two_buffer]
  note t3 = resize_keeps_size_and_cur[of null_alloc 3 two_buffer]
  have 1: "resize always_ok 3 two_buffer
       = (Inr (), \<lparr>data_sb = replicate 4 zero_candidate, size_sb = 2, cur_sb = 0,
                   capacity_sb = 3\<rparr>)"
    using t1[THEN conjunct1, THEN mp, OF a(1)] unfolding u s .
  have "always_ok (unat (3 + 1 :: 64 word)) \<noteq> VecNull"
    using a(1) by simp
  then have 2: "has_next (snd (resize always_ok 3 two_buffer))"
    using t1 has_next_two_buffer by blast
  have 3: "resize never_ok 3 two_buffer
       = (Inl (LengthError ''cannot create std::vector larger than max_size()''),
          \<lparr>data_sb = data_sb two_buffer, size_sb = 2, cur_sb = 0, capacity_sb = 3\<rparr>)"
    using t2[THEN conjunct2, THEN conjunct1, THEN mp, OF a(2)] unfolding u s .
  have 4: "fst (resize null_alloc 3 two_buffer) = Inl UndefinedBehaviour"
    using t3[THEN conjunct2, THEN conjunct2, THEN conjunct1, THEN mp, OF a(3)] .
  have 5: "unat (3 + 1 :: 64 word) = unat (3 :: 64 word) + 1"
    using t1 n by blast
  show ?thesis
    by (intro conjI)
       (rule a(1), rule a(2), rule a(3), rule n, rule 5, rule 1, rule 2, rule 3, rule 4)
qed

text \<open>
  \<open>resize(SIZE_MAX)\<close>: the sum \<open>capacity_ + 1\<close> wraps to 0, so the storage is a vector
  of no candidates under a capacity of \<open>2^64 - 1\<close>, and the next \<open>insert\<close> writes
  outside it.
\<close>

theorem resize_size_max_counterexample:
  "unat (- 1 :: 64 word) = 18446744073709551615
   \<and> unat (- 1 + 1 :: 64 word) = 0
   \<and> resize always_ok (- 1) two_buffer
       = (Inr (), \<lparr>data_sb = [], size_sb = 2, cur_sb = 0, capacity_sb = 18446744073709551615\<rparr>)
   \<and> insert_sb 3 (Fin 3)
        (clear \<lparr>data_sb = [], size_sb = 2, cur_sb = 0, capacity_sb = 18446744073709551615\<rparr>)
       = None"
proof -
  have i: "insert_sb 3 (Fin 3)
        (clear \<lparr>data_sb = [], size_sb = 2, cur_sb = 0, capacity_sb = 18446744073709551615\<rparr>)
       = None"
    by (simp add: insert_sb_def clear_def is_full_dist_def top_dist_def is_full_def flt_max_def
        binary_search_def bs_loop.simps memmove_right_def)
  show ?thesis
    using i
    by (simp add: resize_def new_vector_def always_ok_def two_buffer_def unat_max_word)
qed

section \<open>Properties of the rounding\<close>

lemma round_half_even_int: "round_half_even (of_int z) = z"
  by (simp add: round_half_even_def)

lemma round_half_even_bounds: "\<lfloor>m\<rfloor> \<le> round_half_even m \<and> round_half_even m \<le> \<lfloor>m\<rfloor> + 1"
  by (simp add: round_half_even_def Let_def)

lemma powr_powi: "(2::real) powr real_of_int k = 2 powi k"
  by (rule powr_real_of_int') simp_all

lemma floor_log2:
  assumes "2 powi e \<le> a" and "a < 2 powi (e + 1)"
  shows "\<lfloor>log 2 a\<rfloor> = e"
proof -
  have "(0::real) < 2 powi e" by simp
  then have pos: "0 < a" using assms(1) by linarith
  have l: "real_of_int e \<le> log 2 a"
    using assms(1) pos unfolding powr_powi[symmetric] by (subst le_log_iff) simp_all
  have u: "log 2 a < real_of_int (e + 1)"
    using assms(2) pos unfolding powr_powi[symmetric] by (subst log_less_iff) simp_all
  show ?thesis
    using l u by (simp add: floor_eq_iff)
qed

lemma below_next_power:
  assumes "x \<noteq> 0"
  shows "\<bar>x\<bar> < 2 powi (\<lfloor>log 2 \<bar>x\<bar>\<rfloor> + 1)"
proof -
  have pos: "0 < \<bar>x\<bar>" using assms by simp
  have "log 2 \<bar>x\<bar> < real_of_int (\<lfloor>log 2 \<bar>x\<bar>\<rfloor> + 1)" by linarith
  then have "\<bar>x\<bar> < 2 powr real_of_int (\<lfloor>log 2 \<bar>x\<bar>\<rfloor> + 1)"
    using pos by (subst (asm) log_less_iff) simp_all
  then show ?thesis unfolding powr_powi .
qed

text \<open>The value of the rounding for an argument whose exponent is known.\<close>

lemma fround_at:
  assumes "2 powi e \<le> \<bar>x\<bar>" and "\<bar>x\<bar> < 2 powi (e + 1)" and "emin \<le> e"
  shows "fround p emin emax x =
     (let u = 2 powi (e - int p + 1);
          r = of_int (round_half_even (x / u)) * u
      in if 2 powi (emax + 1) \<le> \<bar>r\<bar> then (if x < 0 then NInf else PInf) else Fin r)"
proof -
  have "(0::real) < 2 powi e" by simp
  then have "x \<noteq> 0" using assms(1) by linarith
  moreover have "max \<lfloor>log 2 \<bar>x\<bar>\<rfloor> emin = e"
    using floor_log2[OF assms(1,2)] assms(3) by simp
  ultimately show ?thesis by (simp add: fround_def)
qed

text \<open>A number with at most \<open>p\<close> significant bits and an exponent in range is not changed.\<close>

lemma fround_exact:
  assumes x: "x = of_int n * 2 powi k" and n: "\<bar>n\<bar> < 2 ^ p"
    and k: "emin - int p + 1 \<le> k" and b: "\<bar>x\<bar> < 2 powi (emax + 1)"
  shows "fround p emin emax x = Fin x"
proof (cases "x = 0")
  case True
  then show ?thesis by (simp add: fround_def)
next
  case False
  define e where "e = max \<lfloor>log 2 \<bar>x\<bar>\<rfloor> emin"
  define u :: real where "u = 2 powi (e - int p + 1)"
  have pos: "0 < \<bar>x\<bar>" using False by simp
  have "\<bar>x\<bar> = of_int \<bar>n\<bar> * 2 powi k" by (simp add: x abs_mult)
  also have "\<dots> < 2 ^ p * 2 powi k"
    using n by (intro mult_strict_right_mono)
      (simp_all add: of_int_less_iff[symmetric, where 'a = real] del: of_int_less_iff)
  also have "\<dots> = 2 powi (int p + k)" by (simp add: power_int_add)
  finally have lt: "\<bar>x\<bar> < 2 powi (int p + k)" .
  have "log 2 \<bar>x\<bar> < real_of_int (int p + k)"
    using lt pos unfolding powr_powi[symmetric] by (subst log_less_iff) simp_all
  then have "\<lfloor>log 2 \<bar>x\<bar>\<rfloor> < int p + k" by (subst floor_less_iff)
  then have ek: "e - int p + 1 \<le> k" using k by (simp add: e_def)
  define j where "j = nat (k - (e - int p + 1))"
  have kj: "k = (e - int p + 1) + int j" using ek by (simp add: j_def)
  have "2 powi k = u * 2 ^ j" unfolding u_def by (subst kj) (simp add: power_int_add)
  then have xu: "x = of_int (n * 2 ^ j) * u" by (simp add: x)
  have u0: "u \<noteq> 0" by (simp add: u_def)
  have "x / u = of_int (n * 2 ^ j)" using xu u0 by simp
  then have r: "of_int (round_half_even (x / u)) * u = x"
    using round_half_even_int[of "n * 2 ^ j"] xu by simp
  show ?thesis
    using False b r unfolding fround_def Let_def e_def[symmetric] u_def[symmetric] by simp
qed

text \<open>A result of the rounding is not changed by rounding it again.\<close>

lemma fround_idem:
  assumes f: "fround p emin emax y = Fin r" and p: "0 < p"
  shows "fround p emin emax r = Fin r"
proof (cases "y = 0")
  case True
  then have "r = 0" using f by (simp add: fround_def)
  then show ?thesis by (simp add: fround_def)
next
  case False
  define e where "e = max \<lfloor>log 2 \<bar>y\<bar>\<rfloor> emin"
  define k where "k = e - int p + 1"
  define u :: real where "u = 2 powi k"
  define m where "m = round_half_even (y / u)"
  have r: "r = of_int m * u" and b: "\<bar>r\<bar> < 2 powi (emax + 1)"
    using f False
    unfolding fround_def Let_def e_def[symmetric] k_def[symmetric] u_def[symmetric] m_def[symmetric]
    by (auto split: if_splits)
  have u0: "0 < u" by (simp add: u_def)
  have ee: "\<lfloor>log 2 \<bar>y\<bar>\<rfloor> + 1 \<le> e + 1" by (simp add: e_def)
  have "\<bar>y\<bar> < 2 powi (\<lfloor>log 2 \<bar>y\<bar>\<rfloor> + 1)" using below_next_power[OF False] .
  also have "\<dots> \<le> 2 powi (e + 1)" using ee by (intro power_int_increasing) simp_all
  finally have ylt: "\<bar>y\<bar> < 2 powi (e + 1)" .
  have "2 powi (e + 1) = (2::real) ^ p * u"
  proof -
    have "e + 1 = int p + k" by (simp add: k_def)
    then show ?thesis by (simp add: u_def power_int_add)
  qed
  then have "\<bar>y\<bar> < 2 ^ p * u" using ylt by simp
  then have "\<bar>y\<bar> / u < 2 ^ p" using u0 by (simp add: pos_divide_less_eq)
  then have z: "\<bar>y / u\<bar> < 2 ^ p" using u0 by simp
  have zl: "y / u < 2 ^ p" and zg: "- (2 ^ p) < y / u" using z by linarith+
  have "y / u < of_int (2 ^ p)" using zl by simp
  then have fl: "\<lfloor>y / u\<rfloor> < 2 ^ p" by (subst floor_less_iff)
  have "of_int (- (2 ^ p)) \<le> y / u" using zg by simp
  then have fg: "- (2 ^ p) \<le> \<lfloor>y / u\<rfloor>" by (subst le_floor_iff)
  have mb: "- (2 ^ p) \<le> m" "m \<le> 2 ^ p"
    using round_half_even_bounds[of "y / u"] fl fg by (simp_all add: m_def)
  have kk: "emin - int p + 1 \<le> k" by (simp add: k_def e_def)
  show ?thesis
  proof (cases "\<bar>m\<bar> < 2 ^ p")
    case True
    show ?thesis
      by (rule fround_exact[where n = m and k = k, OF _ True kk b]) (simp add: r u_def)
  next
    case False
    then have "m = 2 ^ p \<or> m = - (2 ^ p)" using mb by linarith
    moreover obtain q where q: "p = Suc q" using p by (cases p) simp_all
    ultimately have mm: "m = 2 ^ q * 2 \<or> m = - (2 ^ q) * 2" by auto
    define n :: int where "n = (if m = 2 ^ q * 2 then 2 ^ q else - (2 ^ q))"
    have mn: "m = n * 2" using mm by (auto simp: n_def)
    have nb: "\<bar>n\<bar> < 2 ^ p" by (simp add: n_def q)
    have "(2::real) powi (k + 1) = 2 * u" by (simp add: u_def power_int_add)
    then have rn: "r = of_int n * 2 powi (k + 1)" by (simp add: r mn)
    have kk1: "emin - int p + 1 \<le> k + 1" using kk by simp
    show ?thesis
      by (rule fround_exact[where n = n and k = "k + 1", OF rn nb kk1 b])
  qed
qed

subsection \<open>Values of binary32\<close>

lemma f32_int:
  assumes "\<bar>n\<bar> < 16777216"
  shows "f32_round (of_int n) = Fin (of_int n)"
proof -
  have a: "\<bar>n\<bar> < 2 ^ 24" using assms by simp
  have "\<bar>real_of_int n\<bar> < 16777216" using assms by linarith
  then have b: "\<bar>real_of_int n\<bar> < 2 powi (127 + 1)" by simp
  show ?thesis
    unfolding f32_round_def by (rule fround_exact[where n = n and k = 0, OF _ a _ b]) simp_all
qed

lemma f32_round_small:
  "f32_round 0 = Fin 0" "f32_round 1 = Fin 1" "f32_round (- 1) = Fin (- 1)"
  "f32_round 2 = Fin 2" "f32_round 4 = Fin 4" "f32_round 5 = Fin 5"
  using f32_int[of 0] f32_int[of 1] f32_int[of "- 1"] f32_int[of 2] f32_int[of 4] f32_int[of 5]
  by simp_all

lemma f32_round_idem: "f32_round y = Fin r \<Longrightarrow> f32_round r = Fin r"
  unfolding f32_round_def by (rule fround_idem) simp_all

text \<open>Adding zero to a square does not change it.\<close>

lemma f32_square_plus_zero: "f32_add (f32_mul x x) (Fin 0) = f32_mul x x"
proof (cases x)
  case (Fin a)
  show ?thesis
  proof (cases "f32_round (a * a)")
    case (Fin r)
    then show ?thesis
      using f32_round_idem[OF Fin] \<open>x = Fin a\<close> by (simp add: f32_add_def f32_mul_def)
  qed (simp_all add: f32_add_def f32_mul_def \<open>x = Fin a\<close>)
qed (simp_all add: f32_add_def f32_mul_def)

text \<open>The square of the \<open>float\<close> nearest to one tenth, rounded to a \<open>float\<close>.\<close>

lemma f32_square_tenth:
  "f32_mul (Fin (13421773 / 134217728)) (Fin (13421773 / 134217728))
     = Fin (10737419 / 1073741824)"
proof -
  have e: "fround 24 (- 126) 127 (13421773 / 134217728 * (13421773 / 134217728)) =
     (let u = 2 powi (- 7 - int 24 + 1);
          r = of_int (round_half_even (13421773 / 134217728 * (13421773 / 134217728) / u)) * u
      in if 2 powi (127 + 1) \<le> \<bar>r\<bar>
         then (if 13421773 / 134217728 * (13421773 / 134217728) < (0::real) then NInf else PInf)
         else Fin r)"
    by (rule fround_at) (simp_all add: power_int_minus)
  show ?thesis
    unfolding f32_mul_def fl_mul.simps f32_round_def e
    by (simp add: power_int_minus round_half_even_def Let_def)
qed

section \<open>Properties of the allocation and of the estimators\<close>

subsection \<open>Aligned allocation\<close>

text \<open>
  Claim C8 asks that all \<open>N * sizeof(T)\<close> bytes of the buffer are zero. The call
  \<open>std::memset(p, 0, size)\<close> passes the number of elements where the number of bytes
  is wanted. For \<open>align_mm<64, float>(4)\<close> on storage that holds \<open>0xFF\<close>, 64 bytes are
  allocated and only the first 4 of the 16 bytes of the four floats are cleared.
\<close>

theorem align_mm_zeroes_only_size_bytes:
  "rd_up_to_multiple_of (4 * 4) 64 = 64
   \<and> align_mm (\<lambda>alignment nbytes. Some (replicate nbytes 255)) 64 4 4
       = Some (replicate 4 0 @ replicate 60 255)
   \<and> take (4 * 4) (replicate 4 0 @ replicate 60 (255 :: 8 word)) \<noteq> replicate (4 * 4) 0"
proof -
  have r: "rd_up_to_multiple_of (4 * 4) 64 = 64" by (simp add: rd_up_to_multiple_of_def)
  have a: "align_mm (\<lambda>alignment nbytes. Some (replicate nbytes 255)) 64 4 4
       = Some (replicate 4 0 @ replicate 60 255)"
    by (simp add: align_mm_def memset_zero_def rd_up_to_multiple_of_def)
  have "take (4 * 4) (replicate 4 0 @ replicate 60 (255 :: 8 word)) = replicate 4 0 @ replicate 12 255"
    by simp
  moreover have "replicate 4 0 @ replicate 12 (255 :: 8 word) \<noteq> replicate (4 * 4) 0"
    by code_simp
  ultimately show ?thesis using r a by simp
qed

subsection \<open>The counter of the fast path\<close>

text \<open>
  Claim C6, as the code has it. With \<open>B \<ge> 1\<close> and a prepared cluster, a call of
  \<open>compFastDist(block_idx, out)\<close> with an output adds \<open>32 * D\<close> to \<open>fast_bitsum\<close>
  (in \<open>size_t\<close> arithmetic). A call with \<open>out = nullptr\<close> leaves through the
  \<open>return\<close> that follows \<open>compFastIP\<close>, before the counter, and \<open>fast_bitsum\<close> is
  what it was.
\<close>

theorem compFastDist_fast_bitsum:
  assumes "num_bits_e e \<noteq> 0" and "curr_cluster e = Some cl"
  shows "(\<exists>e' out. compFastDist compFastIP e block_idx (Some old) = Inr (e', Some out)
            \<and> fast_bitsum (runtime_statics e')
                = fast_bitsum (runtime_statics e) + 32 * num_dim_padded e)
       \<and> (\<exists>e'. compFastDist compFastIP e block_idx None = Inr (e', None)
            \<and> fast_bitsum (runtime_statics e') = fast_bitsum (runtime_statics e))"
  using assms
  by (auto simp: compFastDist_def Let_def split: prod.splits)

text \<open>The constructor and \<open>prepare\<close> on the inputs of the examples.\<close>

lemma foldl_replicate_keep: "f acc x = acc \<Longrightarrow> foldl f acc (replicate n x) = acc"
  by (induction n) simp_all

lemma f32_basic:
  "f32_sub (Fin 0) (Fin 0) = Fin 0" "f32_sub (Fin 0) (Fin 1) = Fin (- 1)"
  "f32_mul (Fin 0) (Fin 0) = Fin 0" "f32_mul (Fin 1) (Fin 1) = Fin 1"
  "f32_mul (Fin (- 1)) (Fin (- 1)) = Fin 1" "f32_mul (Fin 2) (Fin 2) = Fin 4"
  "f32_add (Fin 0) (Fin 0) = Fin 0" "f32_add (Fin 0) (Fin 1) = Fin 1"
  "f32_add (Fin 1) (Fin 0) = Fin 1" "f32_add (Fin 4) (Fin 1) = Fin 5"
  "f32_add (Fin 0) (Fin (- 1)) = Fin (- 1)" "f32_add (Fin (- 1)) (Fin 0) = Fin (- 1)"
  by (simp_all add: f32_sub_def fl_sub_def f32_mul_def f32_add_def f32_round_small)

lemma seq_dot_zeros: "seq_dot (replicate n (Fin 0)) (replicate n (Fin 0)) = Fin 0"
  by (simp add: seq_dot_def foldl_replicate_keep f32_basic)

lemma seq_dot_unit:
  "seq_dot (Fin (- 1) # replicate n (Fin 0)) (Fin (- 1) # replicate n (Fin 0)) = Fin 1"
  by (simp add: seq_dot_def foldl_replicate_keep f32_basic)

lemma replicate_64: "replicate 64 x = x # replicate 63 x"
  by (simp add: replicate_Suc[symmetric] del: replicate_Suc)

lemma demo_new_b1:
  "CaqCluEstimator_new seq_eigen L2Sqr (demo_data 1) demo_cfg (replicate 64 (Fin 0))
     = Inr demo_fresh_b1"
  by (simp add: CaqCluEstimator_new_def demo_data_def demo_cfg_def demo_fresh_b1_def Lut_new_def)

lemma demo_new_b0:
  "CaqCluEstimator_new seq_eigen L2Sqr (demo_data 0) demo_cfg (replicate 64 (Fin 0))
     = Inr demo_fresh_b0"
  by (simp add: CaqCluEstimator_new_def demo_data_def demo_cfg_def demo_fresh_b0_def
      demo_fresh_b1_def Lut_new_def)

lemma demo_sub: "map2 f32_sub (replicate 64 (Fin 0)) (Fin 1 # replicate 63 (Fin 0))
     = Fin (- 1) # replicate 63 (Fin 0)"
  unfolding replicate_64[of "Fin 0"] by (simp add: f32_basic)

lemma demo_sub_zero: "map2 f32_sub (replicate 64 (Fin 0)) (replicate 64 (Fin 0))
     = replicate 64 (Fin 0)"
  by (simp add: f32_basic)

lemma demo_prepare_b1:
  "prepare seq_eigen seq_qq demo_cluster demo_fresh_b1 = Inr demo_prepared_b1"
  by (simp add: prepare_def isIpDist_def demo_fresh_b1_def demo_prepared_b1_def demo_cfg_def
      demo_cluster_def vec_sub_def lut_prepare_def getQL2Sqr_def Let_def demo_sub seq_qq_def
      seq_dot_unit)

lemma demo_prepare_b0:
  "prepare seq_eigen seq_qq demo_cluster demo_fresh_b0 = Inr demo_prepared_b0"
  by (simp add: prepare_def isIpDist_def demo_fresh_b0_def demo_prepared_b0_def
      demo_fresh_b1_def demo_prepared_b1_def demo_cfg_def
      demo_cluster_def vec_sub_def lut_prepare_def getQL2Sqr_def Let_def demo_sub seq_qq_def
      seq_dot_unit)

lemma demo_prepare_zero:
  "prepare seq_eigen seq_qq demo_cluster_zero demo_fresh_b0 = Inr demo_prepared_zero"
  by (simp add: prepare_def isIpDist_def demo_fresh_b0_def demo_prepared_zero_def
      demo_fresh_b1_def demo_cfg_def
      demo_cluster_zero_def vec_sub_def lut_prepare_def getQL2Sqr_def Let_def f32_basic
      seq_qq_def seq_dot_zeros)

text \<open>
  With \<open>B = 1\<close> and \<open>D = 64\<close>: the counter goes from 0 to 2048 when an output is
  given, and stays 0 for \<open>nullptr\<close>.
\<close>

theorem compFastDist_fast_bitsum_witness:
  "num_bits_e demo_prepared_b1 \<noteq> 0
   \<and> curr_cluster demo_prepared_b1 = Some demo_cluster
   \<and> (\<exists>e' out. compFastDist demo_compFastIP demo_prepared_b1 0
                   (Some (replicate 16 (Fin 0), replicate 16 (Fin 0))) = Inr (e', Some out)
         \<and> fast_bitsum (runtime_statics e') = 2048)
   \<and> (\<exists>e'. compFastDist demo_compFastIP demo_prepared_b1 0 None = Inr (e', None)
         \<and> fast_bitsum (runtime_statics e') = 0)"
proof -
  have b: "num_bits_e demo_prepared_b1 \<noteq> 0"
    by (simp add: demo_prepared_b1_def demo_fresh_b1_def)
  have c: "curr_cluster demo_prepared_b1 = Some demo_cluster"
    by (simp add: demo_prepared_b1_def)
  have v: "fast_bitsum (runtime_statics demo_prepared_b1) = 0"
     "num_dim_padded demo_prepared_b1 = 64"
    by (simp_all add: demo_prepared_b1_def demo_fresh_b1_def)
  show ?thesis
    using compFastDist_fast_bitsum[OF b c, of demo_compFastIP 0
        "(replicate 16 (Fin 0), replicate 16 (Fin 0))"]
      b c v by simp
qed

text \<open>
  With \<open>B = 1\<close>, \<open>D = 64\<close> and a prepared cluster, \<open>compFastDist(0, nullptr)\<close> leaves
  \<open>fast_bitsum\<close> at 0, where an increase by \<open>32 * D\<close> would give 2048.
\<close>

theorem compFastDist_null_out_counterexample:
  "CaqCluEstimator_new seq_eigen L2Sqr (demo_data 1) demo_cfg (replicate 64 (Fin 0))
     = Inr demo_fresh_b1
   \<and> prepare seq_eigen seq_qq demo_cluster demo_fresh_b1 = Inr demo_prepared_b1
   \<and> num_bits_e demo_prepared_b1 = 1
   \<and> compFastDist demo_compFastIP demo_prepared_b1 0 None = Inr (demo_prepared_b1, None)
   \<and> fast_bitsum (runtime_statics demo_prepared_b1) = 0
   \<and> fast_bitsum (runtime_statics demo_prepared_b1) + 32 * num_dim_padded demo_prepared_b1 = 2048"
proof -
  have "compFastDist demo_compFastIP demo_prepared_b1 0 None = Inr (demo_prepared_b1, None)"
    by (simp add: compFastDist_def demo_compFastIP_def demo_prepared_b1_def demo_fresh_b1_def)
  then show ?thesis
    using demo_new_b1 demo_prepare_b1
    by (simp add: demo_prepared_b1_def demo_fresh_b1_def)
qed

subsection \<open>The zero query\<close>

lemma new_fields:
  assumes "CaqCluEstimator_new eg kdt dq c query = Inr e0"
  shows "num_bits_e e0 = num_bits dq \<and> curr_cluster e0 = None"
  using assms
  by (auto simp: CaqCluEstimator_new_def Let_def split: if_splits sum.splits)

lemma prepare_l2:
  assumes "prepare eg qq cl e0 = Inr e" and "\<not> isIpDist e0"
  shows "length (query_data e0) = length (centroid cl)
     \<and> e = e0\<lparr>curr_cluster := Some cl,
              lut := lut_prepare qq (map2 f32_sub (query_data e0) (centroid cl)) (lut e0),
              q_l2sqr := qq (map2 f32_sub (query_data e0) (centroid cl))\<rparr>"
  using assms
  by (auto simp: prepare_def isIpDist_def vec_sub_def Let_def lut_prepare_def getQL2Sqr_def
      split: if_splits)

lemma map2_replicate_left:
  "map2 f (replicate (length c) a) c = map (f a) c"
  by (induction c) simp_all

text \<open>
  Claim C7, as the code has it. In L2-squared mode with \<open>B = 0\<close> and a rotated
  query that is zero, \<open>prepare(cluster)\<close> hands the table \<open>q - c = 0 - c\<close> for the
  centroid \<open>c\<close>, so \<open>q_l2sqr_\<close> is what the table computes as the squared norm of
  that, and \<open>compAccurateDist\<close> returns the \<open>float\<close> sum of the \<open>float\<close> product
  \<open>x * x\<close> and \<open>q_l2sqr_\<close> for a vector whose stored norm is \<open>x\<close>. When \<open>q_l2sqr_\<close> is
  zero, as for a zero centroid, that is the \<open>float\<close> product \<open>x * x\<close>.
\<close>

theorem compAccurateDist_zero_query:
  assumes "CaqCluEstimator_new eg kdt dq c query = Inr e0"
    and "query_data e0 = replicate n (Fin 0)"
    and "num_bits dq = 0" and "\<not> isIpDist e0" and "prepare eg qq cl e0 = Inr e"
  shows "compAccurateDist getExtIP e vec_idx
           = Inr (f32_add
                    (f32_mul (factor_o_l2norm cl (vec_idx div 32) (vec_idx mod 32))
                             (factor_o_l2norm cl (vec_idx div 32) (vec_idx mod 32)))
                    (qq (map (f32_sub (Fin 0)) (centroid cl))), e)
     \<and> (qq (map (f32_sub (Fin 0)) (centroid cl)) = Fin 0 \<longrightarrow>
          compAccurateDist getExtIP e vec_idx
           = Inr (f32_mul (factor_o_l2norm cl (vec_idx div 32) (vec_idx mod 32))
                          (factor_o_l2norm cl (vec_idx div 32) (vec_idx mod 32)), e))"
proof -
  have b: "num_bits_e e0 = 0"
    using new_fields[OF assms(1)] assms(3) by simp
  have len: "length (query_data e0) = length (centroid cl)"
    and e: "e = e0\<lparr>curr_cluster := Some cl,
              lut := lut_prepare qq (map2 f32_sub (query_data e0) (centroid cl)) (lut e0),
              q_l2sqr := qq (map2 f32_sub (query_data e0) (centroid cl))\<rparr>"
    using prepare_l2[OF assms(5) assms(4)] by simp_all
  have n: "n = length (centroid cl)" using len assms(2) by simp
  have "map2 f32_sub (query_data e0) (centroid cl) = map (f32_sub (Fin 0)) (centroid cl)"
    unfolding assms(2) n by (rule map2_replicate_left)
  then have f: "q_l2sqr e = qq (map (f32_sub (Fin 0)) (centroid cl))" "curr_cluster e = Some cl"
      "num_bits_e e = 0" "\<not> isIpDist e"
    using e b assms(4) by (simp_all add: isIpDist_def)
  have main: "compAccurateDist getExtIP e vec_idx
           = Inr (f32_add
                    (f32_mul (factor_o_l2norm cl (vec_idx div 32) (vec_idx mod 32))
                             (factor_o_l2norm cl (vec_idx div 32) (vec_idx mod 32)))
                    (qq (map (f32_sub (Fin 0)) (centroid cl))), e)"
    using f by (simp add: compAccurateDist_def Let_def)
  then show ?thesis using f32_square_plus_zero by simp
qed

text \<open>
  The zero query of dimension 64 against the zero centroid, for a vector whose norm
  is the \<open>float\<close> \<open>0.1f\<close>, that is \<open>13421773 / 2^27\<close>: the result is the \<open>float\<close>
  \<open>10737419 / 2^30\<close>.
\<close>

theorem compAccurateDist_zero_query_witness:
  "CaqCluEstimator_new seq_eigen L2Sqr (demo_data 0) demo_cfg (replicate 64 (Fin 0))
     = Inr demo_fresh_b0
   \<and> query_data demo_fresh_b0 = replicate 64 (Fin 0)
   \<and> num_bits (demo_data 0) = 0
   \<and> \<not> isIpDist demo_fresh_b0
   \<and> prepare seq_eigen seq_qq demo_cluster_zero demo_fresh_b0 = Inr demo_prepared_zero
   \<and> seq_qq (map (f32_sub (Fin 0)) (centroid demo_cluster_zero)) = Fin 0
   \<and> compAccurateDist demo_getExtIP demo_prepared_zero 5
       = Inr (Fin (10737419 / 1073741824), demo_prepared_zero)"
proof -
  have q: "query_data demo_fresh_b0 = replicate 64 (Fin 0)"
    by (simp add: demo_fresh_b0_def demo_fresh_b1_def)
  have b: "num_bits (demo_data 0) = 0" by (simp add: demo_data_def)
  have i: "\<not> isIpDist demo_fresh_b0"
    by (simp add: isIpDist_def demo_fresh_b0_def demo_fresh_b1_def demo_cfg_def)
  have s: "seq_qq (map (f32_sub (Fin 0)) (centroid demo_cluster_zero)) = Fin 0"
    by (simp add: demo_cluster_zero_def seq_qq_def f32_basic seq_dot_zeros)
  have x: "factor_o_l2norm demo_cluster_zero (5 div 32) (5 mod 32) = Fin (13421773 / 134217728)"
    by (simp add: demo_cluster_zero_def)
  have "compAccurateDist demo_getExtIP demo_prepared_zero 5
       = Inr (Fin (10737419 / 1073741824), demo_prepared_zero)"
    using compAccurateDist_zero_query[OF demo_new_b0 q b i demo_prepare_zero,
        of demo_getExtIP 5, THEN conjunct2, THEN mp, OF s]
    unfolding x f32_square_tenth .
  then show ?thesis
    using demo_new_b0 q b i demo_prepare_zero s by simp
qed

text \<open>
  For the centroid \<open>(1, 0, ..., 0)\<close> and a vector of norm 2 the result is 5, not 4.
  For the zero centroid and a vector of norm \<open>0.1f\<close> the result is the \<open>float\<close>
  nearest to the square, not the square.
\<close>

theorem compAccurateDist_zero_query_counterexample:
  "CaqCluEstimator_new seq_eigen L2Sqr (demo_data 0) demo_cfg (replicate 64 (Fin 0))
     = Inr demo_fresh_b0
   \<and> prepare seq_eigen seq_qq demo_cluster demo_fresh_b0 = Inr demo_prepared_b0
   \<and> factor_o_l2norm demo_cluster (5 div 32) (5 mod 32) = Fin 2
   \<and> compAccurateDist demo_getExtIP demo_prepared_b0 5 = Inr (Fin 5, demo_prepared_b0)
   \<and> Fin 5 \<noteq> Fin (2 * 2)
   \<and> prepare seq_eigen seq_qq demo_cluster_zero demo_fresh_b0 = Inr demo_prepared_zero
   \<and> factor_o_l2norm demo_cluster_zero (5 div 32) (5 mod 32) = Fin (13421773 / 134217728)
   \<and> compAccurateDist demo_getExtIP demo_prepared_zero 5
       = Inr (Fin (10737419 / 1073741824), demo_prepared_zero)
   \<and> Fin (10737419 / 1073741824) \<noteq> Fin (13421773 / 134217728 * (13421773 / 134217728))"
proof -
  have a: "compAccurateDist demo_getExtIP demo_prepared_b0 5 = Inr (Fin 5, demo_prepared_b0)"
    by (simp add: compAccurateDist_def isIpDist_def demo_prepared_b0_def demo_prepared_b1_def
        demo_fresh_b1_def demo_cfg_def demo_cluster_def Let_def f32_basic)
  have z: "compAccurateDist demo_getExtIP demo_prepared_zero 5
       = Inr (Fin (10737419 / 1073741824), demo_prepared_zero)"
    by (simp add: compAccurateDist_def isIpDist_def demo_prepared_zero_def demo_fresh_b0_def
        demo_fresh_b1_def demo_cfg_def demo_cluster_zero_def Let_def f32_square_plus_zero
        f32_square_tenth)
  show ?thesis
    using demo_new_b0 demo_prepare_b0 demo_prepare_zero a z
    by (simp add: demo_cluster_def demo_cluster_zero_def)
qed

subsection \<open>The single-vector cluster estimator\<close>























end
